theory Spec2Isabelle
  imports Main "HOL-Library.List_Lexorder" "HOL-Library.Char_ord"
begin

section \<open>Data model (the interfaces of src/index.ts)\<close>

text \<open>
  A row of the table \<open>tracking_numbers\<close> (interface \<open>TrackingNumber\<close>). The column
  \<open>order_number\<close> is \<open>string | null\<close>; the other columns are strings. Timestamps are the
  text SQLite stores for them, compared bytewise as SQLite compares text.
\<close>

record TrackingNumber =
  tracking_number :: string
  order_number :: "string option"
  status :: string
  created_at :: string
  updated_at :: string

text \<open>Interface \<open>ShipmentData\<close>. A shipment of a ShipStation page is any extension of it.\<close>

record ShipmentData =
  trackingNumber :: string
  orderNumber :: string

text \<open>Interface \<open>StatusUpdate\<close> (fields \<open>tracking_number\<close> and \<open>status\<close>).\<close>

record StatusUpdate =
  upd_tracking_number :: string
  upd_status :: string

text \<open>
  Interface \<open>SearchParams\<close>: five optional strings (\<open>None\<close> is \<open>undefined\<close>).
\<close>

record SearchParams =
  sp_tracking_number :: "string option"
  sp_order_number :: "string option"
  sp_status :: "string option"
  sp_created_after :: "string option"
  sp_created_before :: "string option"

text \<open>A thrown JavaScript \<open>Error\<close>; an empty message also stands for a missing one.\<close>

datatype JsError = Error (message: string)

text \<open>
  A prepared statement after \<open>bind\<close>: the SQL text and the bound values, in order.
\<close>

record Statement =
  sql :: string
  bindings :: "string list"

text \<open>
  The store capability \<open>D1Database\<close> over a store state \<open>'s\<close>: \<open>all\<close> of a bound
  statement returns rows or throws; \<open>batch\<close> runs a list of bound statements as one
  unit and returns the new state, or throws and leaves the state as it was.
\<close>

record 's D1Database =
  d1_all :: "Statement \<Rightarrow> 's \<Rightarrow> JsError + TrackingNumber list"
  d1_batch :: "Statement list \<Rightarrow> 's \<Rightarrow> JsError + 's"

record 's Env =
  STATUS_DB :: "'s D1Database"
  SHIPSTATION_API_KEY :: string
  SHIPSTATION_API_SECRET :: string

text \<open>A \<open>Response.json\<close>: status code, the headers given explicitly, and the payload.\<close>

datatype Payload =
    SearchPayload "TrackingNumber list" nat
  | UrlsPayload "string list"
  | SuccessPayload
  | ErrorPayload string

record Response =
  http_status :: nat
  headers :: "(string \<times> string) list"
  payload :: Payload

definition CORS_HEADERS :: "(string \<times> string) list" where
  "CORS_HEADERS =
     [(''Access-Control-Allow-Origin'', ''*''),
      (''Access-Control-Allow-Methods'', ''GET, POST, OPTIONS''),
      (''Access-Control-Allow-Headers'', ''Content-Type, Authorization''),
      (''Access-Control-Max-Age'', ''86400'')]"

definition json_headers :: "(string \<times> string) list" where
  "json_headers = CORS_HEADERS @ [(''Content-Type'', ''application/json'')]"

section \<open>String operations of the source\<close>

definition startsWith :: "string \<Rightarrow> string \<Rightarrow> bool" where
  "startsWith s p = (take (length p) s = p)"

definition substring :: "string \<Rightarrow> nat \<Rightarrow> string" where
  "substring s n = drop n s"

text \<open>\<open>Array.prototype.join\<close> on strings.\<close>

fun join :: "string list \<Rightarrow> string \<Rightarrow> string" where
  "join [] sep = []"
| "join [x] sep = x"
| "join (x # y # ys) sep = x @ sep @ join (y # ys) sep"

text \<open>JavaScript truthiness of \<open>string | null | undefined\<close>: present and not empty.\<close>

definition truthy :: "string option \<Rightarrow> bool" where
  "truthy v = (case v of None \<Rightarrow> False | Some s \<Rightarrow> s \<noteq> [])"

text \<open>\<open>v || undefined\<close>.\<close>

definition or_undefined :: "string option \<Rightarrow> string option" where
  "or_undefined v = (if truthy v then v else None)"

section \<open>Search: parseSearchValue and the query builder of handleSearch\<close>

text \<open>The result is the pair (operation, value).\<close>

definition parseSearchValue :: "string \<Rightarrow> string \<times> string" where
  "parseSearchValue v =
     (if startsWith v ''!'' then (''!='', substring v 1) else (''='', v))"

text \<open>
  \<open>url.searchParams.get\<close> is a partial map from parameter names to their first value.
\<close>

definition searchParams :: "(string \<Rightarrow> string option) \<Rightarrow> SearchParams" where
  "searchParams get =
     \<lparr> sp_tracking_number = or_undefined (get ''tracking_number''),
       sp_order_number = or_undefined (get ''order_number''),
       sp_status = or_undefined (get ''status''),
       sp_created_after = or_undefined (get ''created_after''),
       sp_created_before = or_undefined (get ''created_before'') \<rparr>"

text \<open>
  Each \<open>if (params.k) { ... }\<close> block of handleSearch, as a step on the pair of the
  SQL text and the bindings built so far.
\<close>

definition add_tracking_number :: "SearchParams \<Rightarrow> string \<times> string list \<Rightarrow> string \<times> string list" where
  "add_tracking_number params acc =
     (case sp_tracking_number params of
        None \<Rightarrow> acc
      | Some raw \<Rightarrow>
          if raw = [] then acc
          else (case parseSearchValue raw of (operation, v) \<Rightarrow>
            ((if operation = ''!=''
              then fst acc @ '' AND tracking_number NOT LIKE ?''
              else fst acc @ '' AND tracking_number LIKE ?''),
             snd acc @ [''%'' @ v @ ''%''])))"

definition add_order_number :: "SearchParams \<Rightarrow> string \<times> string list \<Rightarrow> string \<times> string list" where
  "add_order_number params acc =
     (case sp_order_number params of
        None \<Rightarrow> acc
      | Some raw \<Rightarrow>
          if raw = [] then acc
          else (case parseSearchValue raw of (operation, v) \<Rightarrow>
            ((if operation = ''!=''
              then fst acc @ '' AND order_number NOT LIKE ?''
              else fst acc @ '' AND order_number LIKE ?''),
             snd acc @ [''%'' @ v @ ''%''])))"

definition add_status :: "SearchParams \<Rightarrow> string \<times> string list \<Rightarrow> string \<times> string list" where
  "add_status params acc =
     (case sp_status params of
        None \<Rightarrow> acc
      | Some raw \<Rightarrow>
          if raw = [] then acc
          else (case parseSearchValue raw of (operation, v) \<Rightarrow>
            (fst acc @ '' AND status '' @ operation @ '' ?'', snd acc @ [v])))"

definition add_created_after :: "SearchParams \<Rightarrow> string \<times> string list \<Rightarrow> string \<times> string list" where
  "add_created_after params acc =
     (case sp_created_after params of
        None \<Rightarrow> acc
      | Some raw \<Rightarrow>
          if raw = [] then acc
          else (fst acc @ '' AND created_at >= datetime(?)'', snd acc @ [raw]))"

definition add_created_before :: "SearchParams \<Rightarrow> string \<times> string list \<Rightarrow> string \<times> string list" where
  "add_created_before params acc =
     (case sp_created_before params of
        None \<Rightarrow> acc
      | Some raw \<Rightarrow>
          if raw = [] then acc
          else (fst acc @ '' AND created_at <= datetime(?)'', snd acc @ [raw]))"

text \<open>The statement handleSearch prepares and binds.\<close>

definition searchStatement :: "SearchParams \<Rightarrow> Statement" where
  "searchStatement params =
     (let acc = (''SELECT * FROM tracking_numbers WHERE 1=1'', []);
          acc = add_tracking_number params acc;
          acc = add_order_number params acc;
          acc = add_status params acc;
          acc = add_created_after params acc;
          acc = add_created_before params acc
      in \<lparr> sql = fst acc @ '' ORDER BY created_at ASC LIMIT 2000'', bindings = snd acc \<rparr>)"

definition handleSearch :: "(string \<Rightarrow> string option) \<Rightarrow> 's Env \<Rightarrow> 's \<Rightarrow> Response" where
  "handleSearch url env s =
     (case d1_all (STATUS_DB env) (searchStatement (searchParams url)) s of
        Inr results \<Rightarrow>
          \<lparr> http_status = 200, headers = json_headers,
            payload = SearchPayload results (length results) \<rparr>
      | Inl error \<Rightarrow>
          \<lparr> http_status = 500, headers = [],
            payload = ErrorPayload
              (if message error \<noteq> [] then message error
               else ''Failed to search tracking numbers'') \<rparr>)"

section \<open>Tracking URLs: handleGetTrackingUrls\<close>

definition tab :: string where
  "tab = [CHR 0x09]"

definition nl :: string where
  "nl = ''\<newline>''"

definition quote :: string where
  "quote = [CHR 0x27]"

text \<open>
  The template literal of the query, with its line breaks and tabs. The row limit is
  \<open>2000\<close> in src/index.ts and \<open>300\<close> in the earlier variant of the handler.
\<close>

definition undelivered_sql :: "string \<Rightarrow> string" where
  "undelivered_sql limit =
     nl @ tab @ tab @ tab @ ''SELECT tracking_number '' @
     nl @ tab @ tab @ tab @ ''FROM tracking_numbers '' @
     nl @ tab @ tab @ tab @ ''WHERE status != '' @ quote @ ''delivered'' @ quote @
     nl @ tab @ tab @ tab @ ''LIMIT '' @ limit @
     nl @ tab @ tab"

text \<open>\<open>xs.slice(i, j)\<close> for \<open>0 \<le> i \<le> j\<close>.\<close>

definition slice :: "'a list \<Rightarrow> nat \<Rightarrow> nat \<Rightarrow> 'a list" where
  "slice xs i j = take (j - i) (drop i xs)"

definition tracking_url :: "string list \<Rightarrow> string" where
  "tracking_url chunk =
     ''https://tools.usps.com/go/TrackConfirmAction.action?tLabels='' @ join chunk ''%2C''"

text \<open>
  The loop \<open>for (let i = 0; i < trackingNumbers.length; i += 30)\<close>, from index \<open>i\<close>
  with the URLs pushed so far.
\<close>

function url_loop :: "string list \<Rightarrow> nat \<Rightarrow> string list \<Rightarrow> string list" where
  "url_loop trackingNumbers i urls =
     (if i < length trackingNumbers
      then url_loop trackingNumbers (i + 30)
             (urls @ [tracking_url (slice trackingNumbers i (i + 30))])
      else urls)"
  by pat_completeness auto
termination
  by (relation "measure (\<lambda>(trackingNumbers, i, urls). length trackingNumbers - i)") auto

declare url_loop.simps [simp del]

definition tracking_urls_response :: "string \<Rightarrow> 's Env \<Rightarrow> 's \<Rightarrow> Response" where
  "tracking_urls_response limit env s =
     (case d1_all (STATUS_DB env) \<lparr> sql = undelivered_sql limit, bindings = [] \<rparr> s of
        Inr results \<Rightarrow>
          \<lparr> http_status = 200, headers = json_headers,
            payload = UrlsPayload (url_loop (map tracking_number results) 0 []) \<rparr>
      | Inl error \<Rightarrow>
          \<lparr> http_status = 500, headers = [],
            payload = ErrorPayload ''Failed to get tracking URLs'' \<rparr>)"

text \<open>src/index.ts\<close>

definition handleGetTrackingUrls :: "'s Env \<Rightarrow> 's \<Rightarrow> Response" where
  "handleGetTrackingUrls = tracking_urls_response ''2000''"

text \<open>The earlier variant of the handler, with \<open>LIMIT 300\<close>.\<close>

definition handleGetTrackingUrls_300 :: "'s Env \<Rightarrow> 's \<Rightarrow> Response" where
  "handleGetTrackingUrls_300 = tracking_urls_response ''300''"

section \<open>Status updates: handleStatusUpdates\<close>

definition update_sql :: string where
  "update_sql =
     nl @ tab @ tab @ ''UPDATE tracking_numbers '' @
     nl @ tab @ tab @ ''SET status = ?, '' @
     nl @ tab @ tab @ tab @ ''updated_at = datetime('' @ quote @ ''now'' @ quote @ '') '' @
     nl @ tab @ tab @ ''WHERE tracking_number = ?'' @
     nl @ tab @ ''  ''"

definition update_statement :: "StatusUpdate \<Rightarrow> Statement" where
  "update_statement update =
     \<lparr> sql = update_sql, bindings = [upd_status update, upd_tracking_number update] \<rparr>"

text \<open>
  The request is the outcome of \<open>request.json()\<close>: the parsed array, or the error it
  throws. The result is the response and the store state afterwards.
\<close>

definition handleStatusUpdates :: "JsError + StatusUpdate list \<Rightarrow> 's Env \<Rightarrow> 's \<Rightarrow> Response \<times> 's" where
  "handleStatusUpdates request env s =
     (let failed = \<lparr> http_status = 500, headers = [],
                      payload = ErrorPayload ''Failed to update statuses'' \<rparr>
      in case request of
           Inl error \<Rightarrow> (failed, s)
         | Inr updates \<Rightarrow>
             (case d1_batch (STATUS_DB env) (map update_statement updates) s of
                Inl error \<Rightarrow> (failed, s)
              | Inr s' \<Rightarrow>
                  (\<lparr> http_status = 200, headers = json_headers, payload = SuccessPayload \<rparr>, s')))"

section \<open>Ingestion: storeNewTrackingNumbers\<close>

definition insert_sql :: string where
  "insert_sql =
     nl @ tab @ ''  INSERT INTO tracking_numbers (tracking_number, order_number, status, created_at) '' @
     nl @ tab @ ''  VALUES (?, ?, '' @ quote @ ''pending'' @ quote @ '', datetime('' @ quote @ ''now'' @ quote @ ''))'' @
     nl @ tab @ ''  ON CONFLICT(tracking_number) DO NOTHING'' @
     nl @ tab"

definition insert_statement :: "ShipmentData \<Rightarrow> Statement" where
  "insert_statement shipment =
     \<lparr> sql = insert_sql, bindings = [trackingNumber shipment, orderNumber shipment] \<rparr>"

text \<open>The result is the store state afterwards, or the error the batch throws.\<close>

definition storeNewTrackingNumbers :: "ShipmentData list \<Rightarrow> 's D1Database \<Rightarrow> 's \<Rightarrow> JsError + 's" where
  "storeNewTrackingNumbers shipments db s =
     (if length shipments = 0 then Inr s
      else d1_batch db (map insert_statement shipments) s)"

section \<open>Ingestion: fetchShipStationPage and fetchNewShipments\<close>

text \<open>
  Interface \<open>ShipStationResponse\<close> (\<open>ss_total\<close> and \<open>ss_page\<close> are its fields
  \<open>total\<close> and \<open>page\<close>, which the code never reads). The code tests \<open>data.shipments\<close> before it uses it,
  so the field is optional here (\<open>None\<close>: missing). Each shipment carries the two fields
  of \<open>ShipmentData\<close> and whatever else the API sends (\<open>'a\<close>).
\<close>

record 'a ShipStationResponse =
  shipments :: "'a ShipmentData_scheme list option"
  ss_total :: int
  ss_page :: int
  pages :: int

text \<open>
  What the code reads of a \<open>fetch\<close> response: \<open>ok\<close>, \<open>status\<close>, \<open>text()\<close>, and the
  outcome of \<open>json()\<close> (the parsed body, or the error it throws).
\<close>

record 'a HttpResponse =
  resp_ok :: bool
  resp_status :: nat
  resp_text :: string
  resp_json :: "JsError + 'a ShipStationResponse"

text \<open>
  The runtime the ingestion calls: \<open>fetch\<close> (URL and headers), \<open>btoa\<close>, and the clock,
  as the date string \<open>YYYY-MM-DD\<close> of today minus \<open>daysBack\<close> days.
\<close>

record ('a, 'n) Runtime =
  rt_fetch :: "string \<Rightarrow> (string \<times> string) list \<Rightarrow> 'a HttpResponse"
  rt_btoa :: "string \<Rightarrow> string"
  rt_dateStr :: "'n \<Rightarrow> string"

text \<open>The calls made to the runtime, in the order they are made.\<close>

datatype Call = Btoa string | Fetch string "(string \<times> string) list"

text \<open>Decimal rendering of a number in a template literal.\<close>

definition digit :: "nat \<Rightarrow> char" where
  "digit d = ''0123456789'' ! d"

function decimal :: "nat \<Rightarrow> string" where
  "decimal n = (if 10 \<le> n then decimal (n div 10) @ [digit (n mod 10)] else [digit n])"
  by pat_completeness auto
termination
  by (relation "measure (\<lambda>n. n)") auto

declare decimal.simps [simp del]

definition number_text :: "int \<Rightarrow> string" where
  "number_text i = (if 0 \<le> i then decimal (nat i) else CHR ''-'' # decimal (nat (- i)))"

text \<open>\<open>[...xs]\<close> of a value that may be missing: spreading \<open>undefined\<close> throws.\<close>

definition spread :: "'a list option \<Rightarrow> JsError + 'a list" where
  "spread v = (case v of None \<Rightarrow> Inl (Error ''undefined is not iterable'') | Some xs \<Rightarrow> Inr xs)"

definition request_headers :: "string \<Rightarrow> (string \<times> string) list" where
  "request_headers credentials =
     [(''Authorization'', ''Basic '' @ credentials), (''Content-Type'', ''application/json'')]"

text \<open>The result of the page, or the error thrown; and the call made.\<close>

definition fetchShipStationPage ::
  "('a, 'n) Runtime \<Rightarrow> string \<Rightarrow> string \<Rightarrow> (JsError + 'a ShipStationResponse) \<times> Call list" where
  "fetchShipStationPage rt url credentials =
     (let response = rt_fetch rt url (request_headers credentials);
          calls = [Fetch url (request_headers credentials)]
      in if \<not> resp_ok response
         then (Inl (Error (''ShipStation API error: '' @ decimal (resp_status response)
                            @ '' - '' @ resp_text response)), calls)
         else (case resp_json response of
                 Inl error \<Rightarrow> (Inl error, calls)
               | Inr data \<Rightarrow>
                   if shipments data = None
                   then (Inl (Error ''Invalid response format: missing shipments array''), calls)
                   else (Inr data, calls)))"

text \<open>
  The loop \<open>for (let page = 2; page <= firstPageData.pages; page++)\<close>, from \<open>page\<close>
  with the shipments accumulated and the calls made so far. A throw leaves the loop.
\<close>

function fetch_pages ::
  "('a, 'n) Runtime \<Rightarrow> string \<Rightarrow> string \<Rightarrow> int \<Rightarrow> int \<Rightarrow> 'a ShipmentData_scheme list \<Rightarrow> Call list
     \<Rightarrow> (JsError + 'a ShipmentData_scheme list) \<times> Call list" where
  "fetch_pages rt baseUrl credentials n page allShipments calls =
     (if page \<le> n
      then (let pageUrl = baseUrl @ ''&page='' @ number_text page
            in case fetchShipStationPage rt pageUrl credentials of
                 (Inl error, c) \<Rightarrow> (Inl error, calls @ c)
               | (Inr pageData, c) \<Rightarrow>
                   (case spread (shipments pageData) of
                      Inl error \<Rightarrow> (Inl error, calls @ c)
                    | Inr pageShipments \<Rightarrow>
                        fetch_pages rt baseUrl credentials n (page + 1) (allShipments @ pageShipments)
                          (calls @ c)))
      else (Inr allShipments, calls))"
  by pat_completeness auto
termination
  by (relation "measure (\<lambda>(rt, baseUrl, credentials, n, page, allShipments, calls). nat (n + 1 - page))")
     auto

declare fetch_pages.simps [simp del]

definition project :: "'a ShipmentData_scheme \<Rightarrow> ShipmentData" where
  "project shipment =
     \<lparr> trackingNumber = trackingNumber shipment, orderNumber = orderNumber shipment \<rparr>"

definition fetchNewShipments ::
  "('a, 'n) Runtime \<Rightarrow> 'n \<Rightarrow> 's Env \<Rightarrow> (JsError + ShipmentData list) \<times> Call list" where
  "fetchNewShipments rt daysBack env =
     (let dateStr = rt_dateStr rt daysBack;
          key = SHIPSTATION_API_KEY env @ '':'' @ SHIPSTATION_API_SECRET env;
          credentials = rt_btoa rt key;
          baseUrl = ''https://ssapi.shipstation.com/shipments?shipDateStart='' @ dateStr
      in case fetchShipStationPage rt baseUrl credentials of
           (Inl error, c) \<Rightarrow> (Inl error, Btoa key # c)
         | (Inr firstPageData, c) \<Rightarrow>
             (case spread (shipments firstPageData) of
                Inl error \<Rightarrow> (Inl error, Btoa key # c)
              | Inr allShipments \<Rightarrow>
                  (case (if pages firstPageData > 1
                         then fetch_pages rt baseUrl credentials (pages firstPageData) 2
                                allShipments (Btoa key # c)
                         else (Inr allShipments, Btoa key # c)) of
                     (Inl error, calls) \<Rightarrow> (Inl error, calls)
                   | (Inr allShipments, calls) \<Rightarrow> (Inr (map project allShipments), calls))))"

section \<open>The store: SQLite's reading of the statements the worker issues\<close>

text \<open>
  The store is not part of the worker's source: the worker reaches it only through
  \<open>d1_all\<close> and \<open>d1_batch\<close>. \<open>sqlite\<close> below is the store the worker is deployed on (D1,
  which is SQLite), for the table of the schema: \<open>tracking_number\<close> is the primary key,
  \<open>status\<close> defaults to \<open>pending\<close>, \<open>created_at\<close> and \<open>updated_at\<close> default to the current
  time. The table is the list of its rows in storage order.

  The store is given nothing but the SQL text and the bound values, and reads the text:
  a statement with another clause, another column, another placeholder order or
  without its \<open>ON CONFLICT\<close> clause gets another result. NULL follows SQL: a comparison
  with NULL is not true. All statements of one batch see the same current time.

  Text is a list of characters, each \<open>char\<close> one character (U+0001 to U+00FF; SQLite's
  text functions stop at a NUL character, which is left out of account). SQLite compares
  and matches text character by character; the characters from U+0080 take two bytes
  where SQLite counts bytes.
\<close>

subsection \<open>The search query\<close>

fun strip_prefix :: "string \<Rightarrow> string \<Rightarrow> string option" where
  "strip_prefix [] s = Some s"
| "strip_prefix (p # ps) [] = None"
| "strip_prefix (p # ps) (c # cs) = (if p = c then strip_prefix ps cs else None)"

datatype Column = TrackingNumberCol | OrderNumberCol

datatype Clause =
    Like Column | NotLike Column
  | StatusIs | StatusIsNot
  | CreatedFrom | CreatedUntil

text \<open>The \<open>AND\<close> clauses the store recognises, each with one placeholder.\<close>

definition clause_texts :: "(string \<times> Clause) list" where
  "clause_texts =
     [('' AND tracking_number NOT LIKE ?'', NotLike TrackingNumberCol),
      ('' AND tracking_number LIKE ?'', Like TrackingNumberCol),
      ('' AND order_number NOT LIKE ?'', NotLike OrderNumberCol),
      ('' AND order_number LIKE ?'', Like OrderNumberCol),
      ('' AND status != ?'', StatusIsNot),
      ('' AND status = ?'', StatusIs),
      ('' AND created_at >= datetime(?)'', CreatedFrom),
      ('' AND created_at <= datetime(?)'', CreatedUntil)]"

fun first_clause :: "(string \<times> Clause) list \<Rightarrow> string \<Rightarrow> (Clause \<times> string) option" where
  "first_clause [] s = None"
| "first_clause ((t, c) # tcs) s =
     (case strip_prefix t s of Some rest \<Rightarrow> Some (c, rest) | None \<Rightarrow> first_clause tcs s)"

lemma strip_prefix_length:
  "strip_prefix p s = Some rest \<Longrightarrow> length s = length p + length rest"
  by (induction p s rule: strip_prefix.induct) (auto split: if_splits)

lemma first_clause_length:
  "first_clause tcs s = Some (c, rest) \<Longrightarrow> \<forall>(t, c) \<in> set tcs. t \<noteq> [] \<Longrightarrow> length rest < length s"
proof (induction tcs)
  case Nil
  then show ?case by simp
next
  case (Cons tc tcs)
  obtain t c' where tc: "tc = (t, c')" by (cases tc)
  show ?case
  proof (cases "strip_prefix t s")
    case None
    with Cons tc show ?thesis by simp
  next
    case (Some r)
    with Cons.prems tc have "rest = r" and "t \<noteq> []" by auto
    with Some strip_prefix_length [of t s r] show ?thesis by (cases t) auto
  qed
qed

lemma clause_texts_nonempty: "\<forall>(t, c) \<in> set clause_texts. t \<noteq> []"
  by (simp add: clause_texts_def)

text \<open>The clauses at the start of a text, and the text after them.\<close>

function parse_where :: "string \<Rightarrow> Clause list \<times> string" where
  "parse_where s =
     (case first_clause clause_texts s of
        None \<Rightarrow> ([], s)
      | Some (c, rest) \<Rightarrow> (case parse_where rest of (cs, r) \<Rightarrow> (c # cs, r)))"
  by pat_completeness auto
termination
  by (relation "measure length")
     (use first_clause_length [OF _ clause_texts_nonempty] in auto)

declare parse_where.simps [simp del]

definition parse_search :: "string \<Rightarrow> Clause list option" where
  "parse_search text =
     (case strip_prefix ''SELECT * FROM tracking_numbers WHERE 1=1'' text of
        None \<Rightarrow> None
      | Some rest \<Rightarrow>
          (case parse_where rest of (cs, r) \<Rightarrow>
             if r = '' ORDER BY created_at ASC LIMIT 2000'' then Some cs else None))"

text \<open>
  SQLite's \<open>LIKE\<close>: \<open>%\<close> matches any run of characters, \<open>_\<close> any one character, and
  every other character matches itself, ASCII letters without regard to case.
\<close>

definition ascii_lower :: "char \<Rightarrow> char" where
  "ascii_lower c =
     (if CHR ''A'' \<le> c \<and> c \<le> CHR ''Z'' then char_of (of_char c + (32 :: nat)) else c)"

fun like_match :: "string \<Rightarrow> string \<Rightarrow> bool" where
  "like_match [] [] = True"
| "like_match [] (c # cs) = False"
| "like_match (p # ps) [] = (p = CHR ''%'' \<and> like_match ps [])"
| "like_match (p # ps) (c # cs) =
     (if p = CHR ''%'' then like_match ps (c # cs) \<or> like_match (p # ps) cs
      else (p = CHR ''_'' \<or> ascii_lower p = ascii_lower c) \<and> like_match ps cs)"

fun column_value :: "Column \<Rightarrow> TrackingNumber \<Rightarrow> string option" where
  "column_value TrackingNumberCol r = Some (tracking_number r)"
| "column_value OrderNumberCol r = order_number r"

text \<open>
  Whether a clause is true of a row, with \<open>b\<close> bound to its placeholder. \<open>datetime\<close> is
  SQLite's function of that name: the normalised timestamp, or NULL for text it cannot
  read as a time.
\<close>

fun clause_true :: "(string \<Rightarrow> string option) \<Rightarrow> Clause \<Rightarrow> string \<Rightarrow> TrackingNumber \<Rightarrow> bool" where
  "clause_true datetime (Like col) b r =
     (case column_value col r of None \<Rightarrow> False | Some v \<Rightarrow> like_match b v)"
| "clause_true datetime (NotLike col) b r =
     (case column_value col r of None \<Rightarrow> False | Some v \<Rightarrow> \<not> like_match b v)"
| "clause_true datetime StatusIs b r = (status r = b)"
| "clause_true datetime StatusIsNot b r = (status r \<noteq> b)"
| "clause_true datetime CreatedFrom b r =
     (case datetime b of None \<Rightarrow> False | Some t \<Rightarrow> t \<le> created_at r)"
| "clause_true datetime CreatedUntil b r =
     (case datetime b of None \<Rightarrow> False | Some t \<Rightarrow> created_at r \<le> t)"

definition where_true :: "(string \<Rightarrow> string option) \<Rightarrow> Clause list \<Rightarrow> string list \<Rightarrow> TrackingNumber \<Rightarrow> bool" where
  "where_true datetime cs bs r = list_all (\<lambda>(c, b). clause_true datetime c b r) (zip cs bs)"

text \<open>
  D1 limits a \<open>LIKE\<close> pattern to 50 bytes: evaluating \<open>LIKE\<close> with a longer pattern
  raises an error that ends the statement. Whether a statement with such a pattern gets
  to evaluate it depends on the rows and on the order in which the engine tests the
  clauses, which is left open here: \<open>pattern_error\<close> gives the error raised, or \<open>None\<close>
  when the engine never evaluates the pattern. It is consulted only for a statement
  that binds a pattern over the limit.
\<close>

definition utf8_length :: "string \<Rightarrow> nat" where
  "utf8_length s = sum_list (map (\<lambda>c. if of_char c < (128 :: nat) then 1 else 2) s)"

fun is_like :: "Clause \<Rightarrow> bool" where
  "is_like (Like col) = True"
| "is_like (NotLike col) = True"
| "is_like c = False"

definition overlong :: "Clause list \<Rightarrow> string list \<Rightarrow> bool" where
  "overlong cs bs = list_ex (\<lambda>(c, b). is_like c \<and> 50 < utf8_length b) (zip cs bs)"

subsection \<open>Reading the text of the other statements\<close>

text \<open>
  The text is cut into words (names and keywords, read without regard to case), quoted
  literals and punctuation; blanks, tabs and line breaks separate tokens.
\<close>

datatype Token = Word string | Quoted string | Sym char | Unterminated

definition flush :: "string \<Rightarrow> Token list" where
  "flush w = (if w = [] then [] else [Word (map ascii_lower w)])"

fun scan :: "bool \<Rightarrow> string \<Rightarrow> string \<Rightarrow> Token list" where
  "scan quoted w [] = (if quoted then [Unterminated] else flush w)"
| "scan quoted w (c # cs) =
     (if quoted
      then (if c = CHR 0x27 then Quoted w # scan False [] cs else scan True (w @ [c]) cs)
      else if c = CHR 0x27 then flush w @ scan True [] cs
      else if c \<in> set [CHR '' '', CHR 0x09, CHR 0x0A, CHR 0x0D] then flush w @ scan False [] cs
      else if c \<in> set ''(),=?!<>*'' then flush w @ Sym c # scan False [] cs
      else scan False (w @ [c]) cs)"

definition tokens :: "string \<Rightarrow> Token list" where
  "tokens text = scan False [] text"

text \<open>
  A value expression: a placeholder, a quoted literal, \<open>datetime('now')\<close>, or a bare
  name.
\<close>

datatype Expr = Param | Lit string | Now | Col string

definition parse_expr :: "Token list \<Rightarrow> (Expr \<times> Token list) option" where
  "parse_expr ts =
     (case ts of
        Sym c # rest \<Rightarrow> if c = CHR ''?'' then Some (Param, rest) else None
      | Quoted s # rest \<Rightarrow> Some (Lit s, rest)
      | Word w # rest \<Rightarrow>
          if w = ''datetime''
          then (if take 3 rest = [Sym CHR ''('', Quoted ''now'', Sym CHR '')'']
                then Some (Now, drop 3 rest) else None)
          else Some (Col w, rest)
      | _ \<Rightarrow> None)"

text \<open>\<open>name = expression\<close>, as in a \<open>SET\<close> list and in the \<open>WHERE\<close> of the update.\<close>

definition parse_assignment :: "Token list \<Rightarrow> ((string \<times> Expr) \<times> Token list) option" where
  "parse_assignment ts =
     (case ts of
        Word c # Sym e # rest \<Rightarrow>
          if e = CHR ''=''
          then (case parse_expr rest of None \<Rightarrow> None | Some (x, rest') \<Rightarrow> Some ((c, x), rest'))
          else None
      | _ \<Rightarrow> None)"

text \<open>One or more items separated by commas, and the tokens after them.\<close>

function parse_items :: "(Token list \<Rightarrow> ('a \<times> Token list) option) \<Rightarrow> Token list \<Rightarrow> ('a list \<times> Token list) option" where
  "parse_items item ts =
     (case item ts of
        None \<Rightarrow> None
      | Some (x, rest) \<Rightarrow>
          if length rest < length ts \<and> take 1 rest = [Sym CHR '','']
          then (case parse_items item (drop 1 rest) of
                  None \<Rightarrow> None
                | Some (xs, r) \<Rightarrow> Some (x # xs, r))
          else Some ([x], rest))"
  by pat_completeness auto
termination
  by (relation "measure (\<lambda>(item, ts). length ts)") auto

declare parse_items.simps [simp del]

definition expect :: "Token list \<Rightarrow> Token list \<Rightarrow> Token list option" where
  "expect pre ts = (if take (length pre) ts = pre then Some (drop (length pre) ts) else None)"

fun column_names :: "Expr list \<Rightarrow> string list option" where
  "column_names [] = Some []"
| "column_names (Col c # xs) = map_option ((#) c) (column_names xs)"
| "column_names (x # xs) = None"

text \<open>
  The statements that change the table:
  \<open>UPDATE tracking_numbers SET name = expression, ... WHERE name = expression\<close> and
  \<open>INSERT INTO tracking_numbers (name, ...) VALUES (expression, ...)\<close>, the latter with
  or without \<open>ON CONFLICT(name) DO NOTHING\<close>.
\<close>

datatype Change =
    UpdateRows "(string \<times> Expr) list" string Expr
  | InsertRow "string list" "Expr list" "string option"

definition parse_update :: "Token list \<Rightarrow> Change option" where
  "parse_update ts =
     (case expect [Word ''update'', Word ''tracking_numbers'', Word ''set''] ts of
        None \<Rightarrow> None
      | Some ts1 \<Rightarrow>
          (case parse_items parse_assignment ts1 of
             None \<Rightarrow> None
           | Some (assignments, ts2) \<Rightarrow>
               (case expect [Word ''where''] ts2 of
                  None \<Rightarrow> None
                | Some ts3 \<Rightarrow>
                    (case parse_assignment ts3 of
                       None \<Rightarrow> None
                     | Some ((col, x), ts4) \<Rightarrow>
                         if ts4 = [] then Some (UpdateRows assignments col x) else None))))"

definition parse_conflict :: "Token list \<Rightarrow> string option option" where
  "parse_conflict ts =
     (if ts = [] then Some None
      else (case expect [Word ''on'', Word ''conflict'', Sym CHR ''(''] ts of
              None \<Rightarrow> None
            | Some ts1 \<Rightarrow>
                (case ts1 of
                   Word c # ts2 \<Rightarrow>
                     if ts2 = [Sym CHR '')'', Word ''do'', Word ''nothing'']
                     then Some (Some c) else None
                 | _ \<Rightarrow> None)))"

definition parse_insert :: "Token list \<Rightarrow> Change option" where
  "parse_insert ts =
     (case expect [Word ''insert'', Word ''into'', Word ''tracking_numbers'', Sym CHR ''(''] ts of
        None \<Rightarrow> None
      | Some ts1 \<Rightarrow>
          (case parse_items parse_expr ts1 of
             None \<Rightarrow> None
           | Some (names, ts2) \<Rightarrow>
               (case (column_names names, expect [Sym CHR '')'', Word ''values'', Sym CHR ''(''] ts2) of
                  (Some cols, Some ts3) \<Rightarrow>
                    (case parse_items parse_expr ts3 of
                       None \<Rightarrow> None
                     | Some (vals, ts4) \<Rightarrow>
                         (case expect [Sym CHR '')''] ts4 of
                            None \<Rightarrow> None
                          | Some ts5 \<Rightarrow>
                              (case parse_conflict ts5 of
                                 None \<Rightarrow> None
                               | Some conflict \<Rightarrow> Some (InsertRow cols vals conflict))))
                | _ \<Rightarrow> None)))"

definition parse_change :: "string \<Rightarrow> Change option" where
  "parse_change text =
     (case parse_update (tokens text) of
        Some change \<Rightarrow> Some change
      | None \<Rightarrow> parse_insert (tokens text))"

text \<open>
  The query
  \<open>SELECT tracking_number FROM tracking_numbers WHERE status != 'literal' LIMIT number\<close>:
  its literal and its limit.
\<close>

definition digit_value :: "char \<Rightarrow> nat option" where
  "digit_value c =
     (if CHR ''0'' \<le> c \<and> c \<le> CHR ''9'' then Some (of_char c - 48) else None)"

fun number_from :: "nat \<Rightarrow> string \<Rightarrow> nat option" where
  "number_from n [] = Some n"
| "number_from n (c # cs) =
     (case digit_value c of None \<Rightarrow> None | Some d \<Rightarrow> number_from (10 * n + d) cs)"

definition parse_status_query :: "Token list \<Rightarrow> (string \<times> nat) option" where
  "parse_status_query ts =
     (case expect [Word ''select'', Word ''tracking_number'', Word ''from'',
                   Word ''tracking_numbers'', Word ''where'', Word ''status'',
                   Sym CHR ''!'', Sym CHR ''=''] ts of
        Some [Quoted literal, Word limit, Word n] \<Rightarrow>
          if limit = ''limit'' \<and> n \<noteq> []
          then map_option (Pair literal) (number_from 0 n) else None
      | _ \<Rightarrow> None)"

subsection \<open>Running a statement\<close>

text \<open>
  \<open>all()\<close>: the search query, ordered by \<open>created_at\<close> (ties in storage order), and the
  query by status, in storage order (it has no \<open>ORDER BY\<close>).
\<close>

definition sqlite_all ::
  "(Statement \<Rightarrow> TrackingNumber list \<Rightarrow> JsError option) \<Rightarrow> (string \<Rightarrow> string option)
     \<Rightarrow> Statement \<Rightarrow> TrackingNumber list \<Rightarrow> JsError + TrackingNumber list" where
  "sqlite_all pattern_error datetime st rows =
     (case parse_search (sql st) of
        Some cs \<Rightarrow>
          if length cs \<noteq> length (bindings st)
          then Inl (Error ''D1_ERROR: wrong number of parameter bindings'')
          else (case (if overlong cs (bindings st) then pattern_error st rows else None) of
                  Some error \<Rightarrow> Inl error
                | None \<Rightarrow>
                    Inr (take 2000 (sort_key created_at
                           (filter (where_true datetime cs (bindings st)) rows))))
      | None \<Rightarrow>
          (case parse_status_query (tokens (sql st)) of
             Some (literal, n) \<Rightarrow>
               if bindings st = []
               then Inr (take n (filter (\<lambda>r. status r \<noteq> literal) rows))
               else Inl (Error ''D1_ERROR: wrong number of parameter bindings'')
           | None \<Rightarrow> Inl (Error ''D1_ERROR: SQL text not understood'')))"

text \<open>
  The values of a list of expressions at time \<open>now\<close>, the placeholders taking the
  bound values in order; and the bound values left over.
\<close>

fun eval_exprs :: "string \<Rightarrow> Expr list \<Rightarrow> string list \<Rightarrow> (string list \<times> string list) option" where
  "eval_exprs now [] bs = Some ([], bs)"
| "eval_exprs now (Param # xs) [] = None"
| "eval_exprs now (Param # xs) (b # bs) =
     map_option (\<lambda>(vs, left). (b # vs, left)) (eval_exprs now xs bs)"
| "eval_exprs now (Lit s # xs) bs =
     map_option (\<lambda>(vs, left). (s # vs, left)) (eval_exprs now xs bs)"
| "eval_exprs now (Now # xs) bs =
     map_option (\<lambda>(vs, left). (now # vs, left)) (eval_exprs now xs bs)"
| "eval_exprs now (Col c # xs) bs = None"

definition column_text :: "string \<Rightarrow> TrackingNumber \<Rightarrow> string option" where
  "column_text c r =
     (if c = ''tracking_number'' then Some (tracking_number r)
      else if c = ''order_number'' then order_number r
      else if c = ''status'' then Some (status r)
      else if c = ''created_at'' then Some (created_at r)
      else if c = ''updated_at'' then Some (updated_at r)
      else None)"

definition set_column :: "string \<times> string \<Rightarrow> TrackingNumber \<Rightarrow> TrackingNumber" where
  "set_column cv r =
     (case cv of (c, v) \<Rightarrow>
        if c = ''tracking_number'' then r\<lparr> tracking_number := v \<rparr>
        else if c = ''order_number'' then r\<lparr> order_number := Some v \<rparr>
        else if c = ''status'' then r\<lparr> status := v \<rparr>
        else if c = ''created_at'' then r\<lparr> created_at := v \<rparr>
        else if c = ''updated_at'' then r\<lparr> updated_at := v \<rparr>
        else r)"

definition column_list :: "string list" where
  "column_list = [''tracking_number'', ''order_number'', ''status'', ''created_at'', ''updated_at'']"

text \<open>
  One statement of a batch, run at time \<open>now\<close>. An update sets the named columns of
  the rows whose \<open>WHERE\<close> column equals the value (an update of the primary key is not
  covered). An insert makes a row from the named columns and the defaults of the
  schema; when its \<open>tracking_number\<close> is taken, the statement does nothing if it says
  \<open>ON CONFLICT(tracking_number) DO NOTHING\<close>, and fails otherwise.
\<close>

definition sqlite_exec :: "string \<Rightarrow> Statement \<Rightarrow> TrackingNumber list \<Rightarrow> JsError + TrackingNumber list" where
  "sqlite_exec now st rows =
     (case parse_change (sql st) of
        None \<Rightarrow> Inl (Error ''D1_ERROR: SQL text not understood'')
      | Some (UpdateRows assignments col x) \<Rightarrow>
          if \<not> (list_all (\<lambda>c. c \<in> set column_list \<and> c \<noteq> ''tracking_number'') (map fst assignments)
                 \<and> col \<in> set column_list)
          then Inl (Error ''D1_ERROR: no such column'')
          else (case eval_exprs now (map snd assignments) (bindings st) of
                  None \<Rightarrow> Inl (Error ''D1_ERROR: wrong number of parameter bindings'')
                | Some (vs, left) \<Rightarrow>
                    (case eval_exprs now [x] left of
                       Some ([v], []) \<Rightarrow>
                         Inr (map (\<lambda>r. if column_text col r = Some v
                                        then fold set_column (zip (map fst assignments) vs) r
                                        else r) rows)
                     | _ \<Rightarrow> Inl (Error ''D1_ERROR: wrong number of parameter bindings'')))
      | Some (InsertRow cols xs conflict) \<Rightarrow>
          if \<not> (set cols \<subseteq> set column_list \<and> ''tracking_number'' \<in> set cols
                 \<and> distinct cols \<and> length cols = length xs)
          then Inl (Error ''D1_ERROR: columns and values do not fit the table'')
          else (case eval_exprs now xs (bindings st) of
                  Some (vs, []) \<Rightarrow>
                    (let row = fold set_column (zip cols vs)
                                 \<lparr> tracking_number = [], order_number = None,
                                   status = ''pending'', created_at = now, updated_at = now \<rparr>
                     in if tracking_number row \<notin> set (map tracking_number rows)
                        then Inr (rows @ [row])
                        else if conflict = Some ''tracking_number'' then Inr rows
                        else Inl (Error ''D1_ERROR: UNIQUE constraint failed: tracking_numbers.tracking_number''))
                | _ \<Rightarrow> Inl (Error ''D1_ERROR: wrong number of parameter bindings'')))"

text \<open>The statements of a batch in order; the first error ends the batch.\<close>

fun run_statements :: "string \<Rightarrow> Statement list \<Rightarrow> TrackingNumber list \<Rightarrow> JsError + TrackingNumber list" where
  "run_statements now [] rows = Inr rows"
| "run_statements now (st # sts) rows =
     (case sqlite_exec now st rows of
        Inl error \<Rightarrow> Inl error
      | Inr rows' \<Rightarrow> run_statements now sts rows')"

text \<open>\<open>batch()\<close>: D1 rejects a batch with no statement.\<close>

definition sqlite_batch :: "string \<Rightarrow> Statement list \<Rightarrow> TrackingNumber list \<Rightarrow> JsError + TrackingNumber list" where
  "sqlite_batch now sts rows =
     (if sts = [] then Inl (Error ''D1_ERROR: No SQL statements detected.'')
      else run_statements now sts rows)"

definition sqlite ::
  "(Statement \<Rightarrow> TrackingNumber list \<Rightarrow> JsError option) \<Rightarrow> (string \<Rightarrow> string option) \<Rightarrow> string
     \<Rightarrow> TrackingNumber list D1Database" where
  "sqlite pattern_error datetime now =
     \<lparr> d1_all = sqlite_all pattern_error datetime, d1_batch = sqlite_batch now \<rparr>"

text \<open>An environment bound to a given store, with sample credentials.\<close>

definition env_of :: "'s D1Database \<Rightarrow> 's Env" where
  "env_of db = \<lparr> STATUS_DB = db, SHIPSTATION_API_KEY = ''key'', SHIPSTATION_API_SECRET = ''secret'' \<rparr>"

section \<open>The query text of a search is independent of the filter values\<close>

text \<open>
  The shape of a string filter: absent (\<open>None\<close>), or present, and then whether its raw
  value begins with \<open>!\<close>. The shape of a request: the shapes of its three string
  filters and the presence of its two date bounds.
\<close>

definition filter_shape :: "string option \<Rightarrow> bool option" where
  "filter_shape v =
     (case v of None \<Rightarrow> None | Some s \<Rightarrow> if s = [] then None else Some (startsWith s ''!''))"

definition query_shape :: "SearchParams \<Rightarrow> bool option \<times> bool option \<times> bool option \<times> bool \<times> bool" where
  "query_shape p =
     (filter_shape (sp_tracking_number p), filter_shape (sp_order_number p),
      filter_shape (sp_status p), truthy (sp_created_after p), truthy (sp_created_before p))"

text \<open>The query text as a function of the shape alone: it is built from constants.\<close>

definition like_text :: "string \<Rightarrow> bool option \<Rightarrow> string" where
  "like_text column shape =
     (case shape of
        None \<Rightarrow> []
      | Some negated \<Rightarrow> '' AND '' @ column @ (if negated then '' NOT LIKE ?'' else '' LIKE ?''))"

definition status_text :: "bool option \<Rightarrow> string" where
  "status_text shape =
     (case shape of
        None \<Rightarrow> []
      | Some negated \<Rightarrow> (if negated then '' AND status != ?'' else '' AND status = ?''))"

definition shape_sql :: "bool option \<times> bool option \<times> bool option \<times> bool \<times> bool \<Rightarrow> string" where
  "shape_sql shape =
     (case shape of (tn, ord, st, after, before) \<Rightarrow>
        ''SELECT * FROM tracking_numbers WHERE 1=1''
        @ like_text ''tracking_number'' tn
        @ like_text ''order_number'' ord
        @ status_text st
        @ (if after then '' AND created_at >= datetime(?)'' else [])
        @ (if before then '' AND created_at <= datetime(?)'' else [])
        @ '' ORDER BY created_at ASC LIMIT 2000'')"

text \<open>
  The values a request supplies, in the order of the placeholders: a string filter
  without its leading \<open>!\<close>, the two substring filters between \<open>%\<close> signs, the date
  bounds as they came.
\<close>

definition unmarked :: "string \<Rightarrow> string" where
  "unmarked raw = (if startsWith raw ''!'' then drop 1 raw else raw)"

definition supplied :: "string option \<Rightarrow> (string \<Rightarrow> string) \<Rightarrow> string list" where
  "supplied v f = (case v of None \<Rightarrow> [] | Some raw \<Rightarrow> if raw = [] then [] else [f raw])"

definition bound_values :: "SearchParams \<Rightarrow> string list" where
  "bound_values p =
     supplied (sp_tracking_number p) (\<lambda>raw. ''%'' @ unmarked raw @ ''%'')
     @ supplied (sp_order_number p) (\<lambda>raw. ''%'' @ unmarked raw @ ''%'')
     @ supplied (sp_status p) unmarked
     @ supplied (sp_created_after p) (\<lambda>raw. raw)
     @ supplied (sp_created_before p) (\<lambda>raw. raw)"

lemma add_tracking_number_eq:
  "add_tracking_number p acc =
     (fst acc @ like_text ''tracking_number'' (filter_shape (sp_tracking_number p)),
      snd acc @ supplied (sp_tracking_number p) (\<lambda>raw. ''%'' @ unmarked raw @ ''%''))"
  by (simp add: add_tracking_number_def like_text_def filter_shape_def supplied_def unmarked_def
      parseSearchValue_def substring_def split: option.splits)

lemma add_order_number_eq:
  "add_order_number p acc =
     (fst acc @ like_text ''order_number'' (filter_shape (sp_order_number p)),
      snd acc @ supplied (sp_order_number p) (\<lambda>raw. ''%'' @ unmarked raw @ ''%''))"
  by (simp add: add_order_number_def like_text_def filter_shape_def supplied_def unmarked_def
      parseSearchValue_def substring_def split: option.splits)

lemma add_status_eq:
  "add_status p acc =
     (fst acc @ status_text (filter_shape (sp_status p)), snd acc @ supplied (sp_status p) unmarked)"
  by (simp add: add_status_def status_text_def filter_shape_def supplied_def unmarked_def
      parseSearchValue_def substring_def split: option.splits)

lemma add_created_after_eq:
  "add_created_after p acc =
     (fst acc @ (if truthy (sp_created_after p) then '' AND created_at >= datetime(?)'' else []),
      snd acc @ supplied (sp_created_after p) (\<lambda>raw. raw))"
  by (simp add: add_created_after_def truthy_def supplied_def split: option.splits)

lemma add_created_before_eq:
  "add_created_before p acc =
     (fst acc @ (if truthy (sp_created_before p) then '' AND created_at <= datetime(?)'' else []),
      snd acc @ supplied (sp_created_before p) (\<lambda>raw. raw))"
  by (simp add: add_created_before_def truthy_def supplied_def split: option.splits)

lemma searchStatement_eq:
  "searchStatement p = \<lparr> sql = shape_sql (query_shape p), bindings = bound_values p \<rparr>"
  by (simp add: searchStatement_def Let_def add_tracking_number_eq add_order_number_eq
      add_status_eq add_created_after_eq add_created_before_eq shape_sql_def query_shape_def
      bound_values_def)

text \<open>
  C1. The SQL text of a search is a function of the request's shape only (which of the
  five keys are present, and whether each string filter begins with \<open>!\<close>), so two
  requests of the same shape produce the same text whatever their values; the values
  themselves are exactly the bound parameters, in placeholder order.
\<close>

theorem search_sql_independent_of_values:
  "sql (searchStatement p) = shape_sql (query_shape p)
   \<and> bindings (searchStatement p) = bound_values p
   \<and> (query_shape p = query_shape q \<longrightarrow> sql (searchStatement p) = sql (searchStatement q))"
  by (simp add: searchStatement_eq)

definition plain_request :: SearchParams where
  "plain_request =
     \<lparr> sp_tracking_number = Some ''9400'', sp_order_number = None,
       sp_status = Some ''!delivered'', sp_created_after = Some ''2024-01-01'',
       sp_created_before = None \<rparr>"

definition hostile_request :: SearchParams where
  "hostile_request =
     \<lparr> sp_tracking_number = Some ''x' OR 1=1 --'', sp_order_number = None,
       sp_status = Some ''!a'; DROP TABLE tracking_numbers; --'', sp_created_after = Some ''never'',
       sp_created_before = None \<rparr>"

theorem search_sql_independent_of_values_witness:
  "query_shape plain_request = query_shape hostile_request
   \<and> sql (searchStatement plain_request) = sql (searchStatement hostile_request)
   \<and> sql (searchStatement hostile_request) =
       ''SELECT * FROM tracking_numbers WHERE 1=1 AND tracking_number LIKE ? AND status != ? AND created_at >= datetime(?) ORDER BY created_at ASC LIMIT 2000''
   \<and> bindings (searchStatement hostile_request) =
       [''%x' OR 1=1 --%'', ''a'; DROP TABLE tracking_numbers; --'', ''never'']"
proof -
  have shape: "query_shape plain_request = query_shape hostile_request"
    by (simp add: plain_request_def hostile_request_def query_shape_def filter_shape_def
        truthy_def startsWith_def)
  have sql_text: "shape_sql (query_shape hostile_request) =
       ''SELECT * FROM tracking_numbers WHERE 1=1 AND tracking_number LIKE ? AND status != ? AND created_at >= datetime(?) ORDER BY created_at ASC LIMIT 2000''"
    by (simp add: hostile_request_def query_shape_def filter_shape_def truthy_def startsWith_def
        shape_sql_def like_text_def status_text_def)
  have bound: "bound_values hostile_request =
       [''%x' OR 1=1 --%'', ''a'; DROP TABLE tracking_numbers; --'', ''never'']"
    by (simp add: hostile_request_def bound_values_def supplied_def unmarked_def startsWith_def)
  from search_sql_independent_of_values [of plain_request hostile_request] shape
  have same: "sql (searchStatement plain_request) = sql (searchStatement hostile_request)"
    by blast
  from search_sql_independent_of_values [of hostile_request hostile_request]
  have "sql (searchStatement hostile_request) = shape_sql (query_shape hostile_request)"
    and "bindings (searchStatement hostile_request) = bound_values hostile_request"
    by blast+
  with shape same sql_text bound show ?thesis by simp
qed

section \<open>Stores used to observe what the handlers ask of the store\<close>

text \<open>A store whose every call throws the error with the given message.\<close>

definition failing_store :: "string \<Rightarrow> unit D1Database" where
  "failing_store msg =
     \<lparr> d1_all = (\<lambda>st s. Inl (Error msg)), d1_batch = (\<lambda>sts s. Inl (Error msg)) \<rparr>"

text \<open>A store that records the batches submitted to it, in order, and has no rows.\<close>

definition recording_store :: "Statement list list D1Database" where
  "recording_store =
     \<lparr> d1_all = (\<lambda>st log. Inr []), d1_batch = (\<lambda>sts log. Inr (log @ [sts])) \<rparr>"

text \<open>A store that throws on a batch with no statements and accepts any other.\<close>

definition strict_store :: "unit D1Database" where
  "strict_store =
     \<lparr> d1_all = (\<lambda>st s. Inr []),
       d1_batch = (\<lambda>sts s. if sts = [] then Inl (Error ''D1_ERROR: no statements'') else Inr s) \<rparr>"

section \<open>Errors of the store during a search\<close>

text \<open>
  C9 (amended). When the store throws during a search, the response has
  status 500 and its error text is the message of the store's error; the fixed text
  \<open>Failed to search tracking numbers\<close> is used only when that message is empty.
\<close>

theorem search_error_carries_store_message:
  "d1_all (STATUS_DB env) (searchStatement (searchParams url)) s = Inl error \<Longrightarrow>
   handleSearch url env s =
     \<lparr> http_status = 500, headers = [],
       payload = ErrorPayload
         (if message error = [] then ''Failed to search tracking numbers'' else message error) \<rparr>"
  by (simp add: handleSearch_def)

theorem search_error_carries_store_message_witness:
  "d1_all (STATUS_DB (env_of (failing_store []))) (searchStatement (searchParams Map.empty)) ()
     = Inl (Error [])
   \<and> handleSearch Map.empty (env_of (failing_store [])) () =
     \<lparr> http_status = 500, headers = [],
       payload = ErrorPayload ''Failed to search tracking numbers'' \<rparr>"
proof -
  have thrown:
    "d1_all (STATUS_DB (env_of (failing_store []))) (searchStatement (searchParams Map.empty)) ()
       = Inl (Error [])"
    by (simp add: env_of_def failing_store_def)
  from search_error_carries_store_message [OF thrown] thrown show ?thesis
    by simp
qed

text \<open>
  Counterexample to C9: the error text is not always the fixed one. A store error
  with a message reaches the caller word for word, here SQLite's complaint about a
  missing table.
\<close>

theorem search_error_generic_counterexample:
  "payload (handleSearch Map.empty
      (env_of (failing_store ''D1_ERROR: no such table: tracking_numbers'')) ())
     = ErrorPayload ''D1_ERROR: no such table: tracking_numbers''
   \<and> payload (handleSearch Map.empty
      (env_of (failing_store ''D1_ERROR: no such table: tracking_numbers'')) ())
     \<noteq> ErrorPayload ''Failed to search tracking numbers''"
  by (simp add: handleSearch_def env_of_def failing_store_def)

section \<open>The empty update list\<close>

text \<open>
  C10. For the empty update list handleStatusUpdates still calls \<open>batch\<close>, with the
  empty statement list, and answers by what the store returns: the recording store
  shows the empty batch arriving, the strict store turns it into the 500 response.
  storeNewTrackingNumbers returns before any call, whatever the store.
\<close>

theorem empty_update_list_reaches_store:
  "handleStatusUpdates (Inr []) env s =
     (case d1_batch (STATUS_DB env) [] s of
        Inl error \<Rightarrow>
          (\<lparr> http_status = 500, headers = [],
             payload = ErrorPayload ''Failed to update statuses'' \<rparr>, s)
      | Inr s' \<Rightarrow>
          (\<lparr> http_status = 200, headers = json_headers, payload = SuccessPayload \<rparr>, s'))
   \<and> storeNewTrackingNumbers [] db s = Inr s
   \<and> snd (handleStatusUpdates (Inr []) (env_of recording_store) []) = [[]]
   \<and> storeNewTrackingNumbers [] recording_store [] = Inr []
   \<and> payload (fst (handleStatusUpdates (Inr []) (env_of strict_store) ()))
       = ErrorPayload ''Failed to update statuses''
   \<and> storeNewTrackingNumbers [] strict_store () = Inr ()"
  by (simp add: handleStatusUpdates_def storeNewTrackingNumbers_def env_of_def
      recording_store_def strict_store_def split: sum.splits)

section \<open>Tracking URLs: groups of thirty\<close>

text \<open>
  The tracking numbers the query returns from a table: those of the rows whose status is
  not \<open>delivered\<close>, in storage order, at most \<open>cap\<close> of them. Group \<open>k\<close> of a list is its
  elements \<open>30 k, ..., 30 k + 29\<close>.
\<close>

definition eligible :: "nat \<Rightarrow> TrackingNumber list \<Rightarrow> string list" where
  "eligible cap rows =
     map tracking_number (take cap (filter (\<lambda>r. status r \<noteq> ''delivered'') rows))"

definition group :: "'a list \<Rightarrow> nat \<Rightarrow> 'a list" where
  "group xs k = take 30 (drop (30 * k) xs)"

lemma groups_left: "i < n \<Longrightarrow> (n - i + 29) div 30 = Suc ((n - (i + 30) + 29) div 30)" for i n :: nat
proof (cases "i + 30 \<le> n")
  case True
  then obtain d where "n = i + 30 + d" using le_Suc_ex by blast
  then show ?thesis by simp
next
  case False
  assume "i < n"
  with False have "n - (i + 30) = 0" and "30 \<le> n - i + 29" and "n - i + 29 < 60" by simp_all
  then show ?thesis by (simp add: div_nat_eqI)
qed

lemma url_loop_closed:
  "url_loop xs i urls =
     urls @ map (\<lambda>k. tracking_url (slice xs (i + 30 * k) (i + 30 * k + 30)))
              [0..<(length xs - i + 29) div 30]"
proof (induction xs i urls rule: url_loop.induct)
  case (1 xs i urls)
  show ?case
  proof (cases "i < length xs")
    case False
    then show ?thesis by (subst url_loop.simps) simp
  next
    case True
    let ?m = "(length xs - (i + 30) + 29) div 30"
    have "[0..<Suc ?m] = 0 # map Suc [0..<?m]"
      by (simp add: upt_conv_Cons map_Suc_upt del: upt_Suc)
    then have upt: "[0..<(length xs - i + 29) div 30] = 0 # map Suc [0..<?m]"
      by (simp only: groups_left [OF True])
    have "url_loop xs i urls =
            url_loop xs (i + 30) (urls @ [tracking_url (slice xs i (i + 30))])"
      by (subst url_loop.simps) (simp add: True)
    also have "\<dots> = (urls @ [tracking_url (slice xs i (i + 30))])
        @ map (\<lambda>k. tracking_url (slice xs (i + 30 + 30 * k) (i + 30 + 30 * k + 30))) [0..<?m]"
      using "1.IH" [OF True] .
    also have "\<dots> = urls @ map (\<lambda>k. tracking_url (slice xs (i + 30 * k) (i + 30 * k + 30)))
        (0 # map Suc [0..<?m])"
      by (simp add: comp_def add.assoc add.left_commute)
    finally show ?thesis by (simp only: upt)
  qed
qed

lemma url_loop_groups:
  "url_loop xs 0 [] = map (\<lambda>k. tracking_url (group xs k)) [0..<(length xs + 29) div 30]"
  by (simp add: url_loop_closed slice_def group_def)

lemma concat_groups_take:
  "concat (map (group xs) [0..<m]) = take (30 * m) xs"
proof (induction m)
  case 0
  then show ?case by simp
next
  case (Suc m)
  have "take (30 * m) xs @ take 30 (drop (30 * m) xs) = take (30 * m + 30) xs"
    by (simp add: take_add)
  with Suc show ?case by (simp add: group_def add.commute)
qed

lemma concat_groups: "concat (map (group xs) [0..<(length xs + 29) div 30]) = xs"
proof -
  have "length xs \<le> 30 * ((length xs + 29) div 30)" by arith
  then show ?thesis by (simp add: concat_groups_take)
qed

lemma group_size:
  assumes "k < (length xs + 29) div 30"
  shows "group xs k \<noteq> [] \<and> length (group xs k) \<le> 30"
proof -
  from assms have "30 * k < length xs" by arith
  then show ?thesis by (simp add: group_def)
qed

text \<open>What the store reads in the text of the query, for the two limits.\<close>

lemma parse_search_undelivered: "parse_search (undelivered_sql limit) = None"
  by (simp add: parse_search_def undelivered_sql_def nl_def)

lemma status_query_2000:
  "parse_status_query (tokens (undelivered_sql ''2000'')) = Some (''delivered'', 2000)"
  by code_simp

lemma status_query_300:
  "parse_status_query (tokens (undelivered_sql ''300'')) = Some (''delivered'', 300)"
  by code_simp

lemma sqlite_undelivered_2000:
  "d1_all (STATUS_DB (env_of (sqlite pattern_error datetime now))) \<lparr> sql = undelivered_sql ''2000'', bindings = [] \<rparr> rows
     = Inr (take 2000 (filter (\<lambda>r. status r \<noteq> ''delivered'') rows))"
  by (simp add: env_of_def sqlite_def sqlite_all_def parse_search_undelivered status_query_2000)

lemma sqlite_undelivered_300:
  "d1_all (STATUS_DB (env_of (sqlite pattern_error datetime now))) \<lparr> sql = undelivered_sql ''300'', bindings = [] \<rparr> rows
     = Inr (take 300 (filter (\<lambda>r. status r \<noteq> ''delivered'') rows))"
  by (simp add: env_of_def sqlite_def sqlite_all_def parse_search_undelivered status_query_300)

text \<open>
  C8. On the rows the store returns for the query (status other than \<open>delivered\<close>, at
  most 2000 of them, 300 in the earlier variant), with \<open>N\<close> their number, the response
  lists \<open>ceil (N / 30)\<close> URLs; URL \<open>k\<close> is the carrier prefix followed by group \<open>k\<close> of the
  tracking numbers joined by \<open>%2C\<close>. Each group has between 1 and 30 numbers, the
  groups in order make up the input, and no eligible row gives the empty list with
  status 200.
\<close>

theorem tracking_urls_groups_of_thirty:
  "handleGetTrackingUrls (env_of (sqlite pattern_error datetime now)) rows =
     \<lparr> http_status = 200, headers = json_headers,
       payload = UrlsPayload
         (map (\<lambda>k. ''https://tools.usps.com/go/TrackConfirmAction.action?tLabels=''
                    @ join (group (eligible 2000 rows) k) ''%2C'')
              [0..<(length (eligible 2000 rows) + 29) div 30]) \<rparr>
   \<and> handleGetTrackingUrls_300 (env_of (sqlite pattern_error datetime now)) rows =
     \<lparr> http_status = 200, headers = json_headers,
       payload = UrlsPayload
         (map (\<lambda>k. ''https://tools.usps.com/go/TrackConfirmAction.action?tLabels=''
                    @ join (group (eligible 300 rows) k) ''%2C'')
              [0..<(length (eligible 300 rows) + 29) div 30]) \<rparr>
   \<and> (\<forall>k < (length (eligible cap rows) + 29) div 30.
         group (eligible cap rows) k \<noteq> [] \<and> length (group (eligible cap rows) k) \<le> 30)
   \<and> concat (map (group (eligible cap rows)) [0..<(length (eligible cap rows) + 29) div 30])
       = eligible cap rows
   \<and> (eligible 2000 rows = [] \<longrightarrow>
        handleGetTrackingUrls (env_of (sqlite pattern_error datetime now)) rows =
          \<lparr> http_status = 200, headers = json_headers, payload = UrlsPayload [] \<rparr>)"
proof -
  have a: "handleGetTrackingUrls (env_of (sqlite pattern_error datetime now)) rows =
     \<lparr> http_status = 200, headers = json_headers,
       payload = UrlsPayload
         (map (\<lambda>k. ''https://tools.usps.com/go/TrackConfirmAction.action?tLabels=''
                    @ join (group (eligible 2000 rows) k) ''%2C'')
              [0..<(length (eligible 2000 rows) + 29) div 30]) \<rparr>"
    unfolding handleGetTrackingUrls_def tracking_urls_response_def sqlite_undelivered_2000
    by (simp add: url_loop_groups eligible_def tracking_url_def)
  have b: "handleGetTrackingUrls_300 (env_of (sqlite pattern_error datetime now)) rows =
     \<lparr> http_status = 200, headers = json_headers,
       payload = UrlsPayload
         (map (\<lambda>k. ''https://tools.usps.com/go/TrackConfirmAction.action?tLabels=''
                    @ join (group (eligible 300 rows) k) ''%2C'')
              [0..<(length (eligible 300 rows) + 29) div 30]) \<rparr>"
    unfolding handleGetTrackingUrls_300_def tracking_urls_response_def sqlite_undelivered_300
    by (simp add: url_loop_groups eligible_def tracking_url_def)
  have c: "\<forall>k < (length (eligible cap rows) + 29) div 30.
         group (eligible cap rows) k \<noteq> [] \<and> length (group (eligible cap rows) k) \<le> 30"
    using group_size by blast
  have d: "eligible 2000 rows = [] \<longrightarrow>
        handleGetTrackingUrls (env_of (sqlite pattern_error datetime now)) rows =
          \<lparr> http_status = 200, headers = json_headers, payload = UrlsPayload [] \<rparr>"
    by (simp add: a)
  note e = concat_groups [of "eligible cap rows"]
  show ?thesis
    by (rule conjI [OF a conjI [OF b conjI [OF c conjI [OF e d]]]])
qed

text \<open>
  Thirty-two rows with tracking numbers \<open>0\<close> to \<open>31\<close>, all pending but number 7:
  thirty-one are eligible, which gives two URLs, the second with one number.
\<close>

definition sample_row :: "nat \<Rightarrow> TrackingNumber" where
  "sample_row n =
     \<lparr> tracking_number = decimal n, order_number = None,
       status = (if n = 7 then ''delivered'' else ''pending''),
       created_at = ''2024-05-01 10:00:00'', updated_at = ''2024-05-01 10:00:00'' \<rparr>"

definition sample_rows :: "TrackingNumber list" where
  "sample_rows = map sample_row [0..<32]"

definition no_datetime :: "string \<Rightarrow> string option" where
  "no_datetime s = None"

definition no_pattern_error :: "Statement \<Rightarrow> TrackingNumber list \<Rightarrow> JsError option" where
  "no_pattern_error st rows = None"

theorem tracking_urls_groups_of_thirty_witness:
  "length (eligible 2000 sample_rows) = 31
   \<and> payload (handleGetTrackingUrls (env_of (sqlite no_pattern_error no_datetime ''2024-06-01 00:00:00'')) sample_rows) =
       UrlsPayload
        [''https://tools.usps.com/go/TrackConfirmAction.action?tLabels=0%2C1%2C2%2C3%2C4%2C5%2C6%2C8%2C9%2C10%2C11%2C12%2C13%2C14%2C15%2C16%2C17%2C18%2C19%2C20%2C21%2C22%2C23%2C24%2C25%2C26%2C27%2C28%2C29%2C30'',
         ''https://tools.usps.com/go/TrackConfirmAction.action?tLabels=31'']
   \<and> group (eligible 2000 sample_rows) 1 = [''31'']
   \<and> eligible 2000 [] = []
   \<and> handleGetTrackingUrls (env_of (sqlite no_pattern_error no_datetime ''2024-06-01 00:00:00'')) [] =
       \<lparr> http_status = 200, headers = json_headers, payload = UrlsPayload [] \<rparr>"
proof -
  note full = tracking_urls_groups_of_thirty
    [where pattern_error = no_pattern_error and datetime = no_datetime
       and now = "''2024-06-01 00:00:00''" and rows = sample_rows and cap = 2000]
  note none = tracking_urls_groups_of_thirty
    [where pattern_error = no_pattern_error and datetime = no_datetime
       and now = "''2024-06-01 00:00:00''" and rows = "[]" and cap = 2000]
  have n: "length (eligible 2000 sample_rows) = 31"
    by code_simp
  have urls: "map (\<lambda>k. ''https://tools.usps.com/go/TrackConfirmAction.action?tLabels=''
                    @ join (group (eligible 2000 sample_rows) k) ''%2C'')
              [0..<(length (eligible 2000 sample_rows) + 29) div 30] =
        [''https://tools.usps.com/go/TrackConfirmAction.action?tLabels=0%2C1%2C2%2C3%2C4%2C5%2C6%2C8%2C9%2C10%2C11%2C12%2C13%2C14%2C15%2C16%2C17%2C18%2C19%2C20%2C21%2C22%2C23%2C24%2C25%2C26%2C27%2C28%2C29%2C30'',
         ''https://tools.usps.com/go/TrackConfirmAction.action?tLabels=31'']"
    by code_simp
  have a: "payload (handleGetTrackingUrls (env_of (sqlite no_pattern_error no_datetime ''2024-06-01 00:00:00'')) sample_rows) =
       UrlsPayload
        [''https://tools.usps.com/go/TrackConfirmAction.action?tLabels=0%2C1%2C2%2C3%2C4%2C5%2C6%2C8%2C9%2C10%2C11%2C12%2C13%2C14%2C15%2C16%2C17%2C18%2C19%2C20%2C21%2C22%2C23%2C24%2C25%2C26%2C27%2C28%2C29%2C30'',
         ''https://tools.usps.com/go/TrackConfirmAction.action?tLabels=31'']"
    by (simp only: full [THEN conjunct1] urls Response.simps)
  have b: "group (eligible 2000 sample_rows) 1 = [''31'']"
    by code_simp
  have c: "eligible 2000 [] = []"
    by (simp add: eligible_def)
  note d = none [THEN conjunct2, THEN conjunct2, THEN conjunct2, THEN conjunct2, THEN mp, OF c]
  show ?thesis
    by (rule conjI [OF n conjI [OF a conjI [OF b conjI [OF c d]]]])
qed

section \<open>Status updates against the store\<close>

text \<open>What the store reads in the text of the update statement.\<close>

lemma parse_update_sql:
  "parse_change update_sql =
     Some (UpdateRows [(''status'', Param), (''updated_at'', Now)] ''tracking_number'' Param)"
  by code_simp

text \<open>One update statement: every row with that tracking number gets the status.\<close>

definition set_status :: "string \<Rightarrow> StatusUpdate \<Rightarrow> TrackingNumber \<Rightarrow> TrackingNumber" where
  "set_status now u r =
     (if tracking_number r = upd_tracking_number u
      then r\<lparr> status := upd_status u, updated_at := now \<rparr> else r)"

lemma sqlite_exec_update:
  "sqlite_exec now (update_statement u) rows = Inr (map (set_status now u) rows)"
  by (simp add: sqlite_exec_def update_statement_def parse_update_sql set_status_def
      column_list_def column_text_def set_column_def)

text \<open>
  The entry of a batch that decides a tracking number: the last one that names it.
  A row after the batch: untouched when no entry names it, and otherwise with the status
  of the deciding entry and \<open>updated_at\<close> the time of the batch.
\<close>

definition last_update :: "StatusUpdate list \<Rightarrow> string \<Rightarrow> StatusUpdate option" where
  "last_update updates tn = find (\<lambda>u. upd_tracking_number u = tn) (rev updates)"

definition reconciled :: "string \<Rightarrow> StatusUpdate list \<Rightarrow> TrackingNumber \<Rightarrow> TrackingNumber" where
  "reconciled now updates r =
     (case last_update updates (tracking_number r) of
        None \<Rightarrow> r
      | Some u \<Rightarrow> r\<lparr> status := upd_status u, updated_at := now \<rparr>)"

lemma find_app:
  "find P (xs @ ys) = (case find P xs of None \<Rightarrow> find P ys | Some x \<Rightarrow> Some x)"
  by (induction xs) auto

lemma last_update_Cons:
  "last_update (u # us) tn =
     (case last_update us tn of
        Some v \<Rightarrow> Some v
      | None \<Rightarrow> if upd_tracking_number u = tn then Some u else None)"
  by (simp add: last_update_def find_app split: option.splits)

lemma reconciled_Cons: "reconciled now (u # us) r = reconciled now us (set_status now u r)"
  by (simp add: reconciled_def last_update_Cons set_status_def split: option.splits)

lemma run_updates:
  "run_statements now (map update_statement us) rows = Inr (map (reconciled now us) rows)"
proof (induction us arbitrary: rows)
  case Nil
  show ?case by (simp add: reconciled_def last_update_def)
next
  case (Cons u us)
  show ?case by (simp add: sqlite_exec_update Cons.IH reconciled_Cons comp_def)
qed

lemma last_update_decides:
  assumes "\<forall>v \<in> set after. upd_tracking_number v \<noteq> upd_tracking_number u"
  shows "last_update (before @ u # after) (upd_tracking_number u) = Some u"
proof -
  from assms have "find (\<lambda>v. upd_tracking_number v = upd_tracking_number u) (rev after) = None"
    by (simp add: find_None_iff)
  then show ?thesis by (simp add: last_update_def find_app)
qed

lemma last_update_None:
  "(last_update updates tn = None) = (tn \<notin> upd_tracking_number ` set updates)"
  by (auto simp: last_update_def find_None_iff)

lemma reconciled_unnamed:
  assumes "\<forall>u \<in> set updates. upd_tracking_number u \<notin> tracking_number ` set rows"
  shows "map (reconciled now updates) rows = rows"
proof -
  have "reconciled now updates r = r" if "r \<in> set rows" for r
  proof -
    from assms that have "tracking_number r \<notin> upd_tracking_number ` set updates"
      by (force simp: image_iff)
    then show ?thesis by (simp add: reconciled_def last_update_None [symmetric])
  qed
  then show ?thesis by (simp add: map_idI)
qed

text \<open>
  The same statement with a text that sets nothing, or sets another column, leaves the
  status as it was: the result below comes from the text of the statement.
\<close>

lemma update_text_decides:
  "sqlite_exec now \<lparr> sql = ''UPDATE tracking_numbers SET updated_at = datetime('now') WHERE tracking_number = ?'',
                      bindings = [tn] \<rparr> rows
     = Inr (map (\<lambda>r. if tracking_number r = tn then r\<lparr> updated_at := now \<rparr> else r) rows)"
  "sqlite_exec now \<lparr> sql = [], bindings = [s, tn] \<rparr> rows
     = Inl (Error ''D1_ERROR: SQL text not understood'')"
proof -
  have "parse_change ''UPDATE tracking_numbers SET updated_at = datetime('now') WHERE tracking_number = ?''
      = Some (UpdateRows [(''updated_at'', Now)] ''tracking_number'' Param)"
    by code_simp
  then show "sqlite_exec now \<lparr> sql = ''UPDATE tracking_numbers SET updated_at = datetime('now') WHERE tracking_number = ?'',
                      bindings = [tn] \<rparr> rows
     = Inr (map (\<lambda>r. if tracking_number r = tn then r\<lparr> updated_at := now \<rparr> else r) rows)"
    by (simp add: sqlite_exec_def column_list_def column_text_def set_column_def)
  have "parse_change [] = None"
    by code_simp
  then show "sqlite_exec now \<lparr> sql = [], bindings = [s, tn] \<rparr> rows
     = Inl (Error ''D1_ERROR: SQL text not understood'')"
    by (simp add: sqlite_exec_def)
qed

text \<open>
  C7. On the store, a batch of status updates leaves each row as \<open>reconciled\<close> says:
  its identity, order number and creation time are kept; a row named by some entry
  takes the status of the last entry that names it (the entry with no later entry for
  the same tracking number) and \<open>updated_at\<close> becomes the time of the batch; a row no
  entry names is unchanged. A batch with at least one entry is answered with success,
  also when its entries name no stored row, and then no row changes. (The empty list is
  answered with status 500, the store rejecting the empty batch, and changes nothing.)
\<close>

theorem status_updates_last_entry_wins:
  "handleStatusUpdates (Inr updates) (env_of (sqlite pattern_error datetime now)) rows =
     ((if updates = []
       then \<lparr> http_status = 500, headers = [],
              payload = ErrorPayload ''Failed to update statuses'' \<rparr>
       else \<lparr> http_status = 200, headers = json_headers, payload = SuccessPayload \<rparr>),
      map (reconciled now updates) rows)
   \<and> tracking_number (reconciled now updates r) = tracking_number r
   \<and> order_number (reconciled now updates r) = order_number r
   \<and> created_at (reconciled now updates r) = created_at r
   \<and> (last_update updates (tracking_number r) = Some u \<longrightarrow>
        status (reconciled now updates r) = upd_status u
        \<and> updated_at (reconciled now updates r) = now)
   \<and> (tracking_number r \<notin> upd_tracking_number ` set updates \<longrightarrow>
        reconciled now updates r = r)
   \<and> (updates = before @ u # after
        \<and> (\<forall>v \<in> set after. upd_tracking_number v \<noteq> upd_tracking_number u) \<longrightarrow>
        last_update updates (upd_tracking_number u) = Some u)
   \<and> (updates \<noteq> []
        \<and> (\<forall>u \<in> set updates. upd_tracking_number u \<notin> tracking_number ` set rows) \<longrightarrow>
        handleStatusUpdates (Inr updates) (env_of (sqlite pattern_error datetime now)) rows =
          (\<lparr> http_status = 200, headers = json_headers, payload = SuccessPayload \<rparr>, rows))"
proof -
  have run: "handleStatusUpdates (Inr updates) (env_of (sqlite pattern_error datetime now)) rows =
     ((if updates = []
       then \<lparr> http_status = 500, headers = [],
              payload = ErrorPayload ''Failed to update statuses'' \<rparr>
       else \<lparr> http_status = 200, headers = json_headers, payload = SuccessPayload \<rparr>),
      map (reconciled now updates) rows)"
  proof (cases "updates = []")
    case True
    have "reconciled now [] = (\<lambda>r. r)"
      by (rule ext) (simp add: reconciled_def last_update_def)
    then have "map (reconciled now []) rows = rows"
      by simp
    with True show ?thesis
      by (simp add: handleStatusUpdates_def env_of_def sqlite_def sqlite_batch_def)
  next
    case False
    then show ?thesis
      by (simp add: handleStatusUpdates_def env_of_def sqlite_def sqlite_batch_def run_updates)
  qed
  have kept: "tracking_number (reconciled now updates r) = tracking_number r
    \<and> order_number (reconciled now updates r) = order_number r
    \<and> created_at (reconciled now updates r) = created_at r"
    by (simp add: reconciled_def split: option.splits)
  have named: "last_update updates (tracking_number r) = Some u \<longrightarrow>
        status (reconciled now updates r) = upd_status u
        \<and> updated_at (reconciled now updates r) = now"
    by (simp add: reconciled_def)
  have unnamed: "tracking_number r \<notin> upd_tracking_number ` set updates \<longrightarrow>
        reconciled now updates r = r"
    by (simp add: reconciled_def last_update_None [symmetric])
  have last: "updates = before @ u # after
        \<and> (\<forall>v \<in> set after. upd_tracking_number v \<noteq> upd_tracking_number u) \<longrightarrow>
        last_update updates (upd_tracking_number u) = Some u"
    using last_update_decides by blast
  have absent: "updates \<noteq> []
        \<and> (\<forall>u \<in> set updates. upd_tracking_number u \<notin> tracking_number ` set rows) \<longrightarrow>
        handleStatusUpdates (Inr updates) (env_of (sqlite pattern_error datetime now)) rows =
          (\<lparr> http_status = 200, headers = json_headers, payload = SuccessPayload \<rparr>, rows)"
    by (simp add: run reconciled_unnamed)
  from kept have k1: "tracking_number (reconciled now updates r) = tracking_number r"
    and k2: "order_number (reconciled now updates r) = order_number r"
    and k3: "created_at (reconciled now updates r) = created_at r"
    by simp_all
  show ?thesis
    by (rule conjI [OF run conjI [OF k1 conjI [OF k2 conjI [OF k3
          conjI [OF named conjI [OF unnamed conjI [OF last absent]]]]]]])
qed

text \<open>
  Two stored rows and a batch of three entries: two for the first row, the later one
  \<open>delivered\<close>, and between them one for a tracking number that is not stored.
\<close>

definition first_row :: TrackingNumber where
  "first_row =
     \<lparr> tracking_number = ''9400111105501612009154'', order_number = None,
       status = ''pending'', created_at = ''2024-05-01 10:00:00'',
       updated_at = ''2024-05-01 10:00:00'' \<rparr>"

definition second_row :: TrackingNumber where
  "second_row =
     \<lparr> tracking_number = ''9400111105501612835722'', order_number = Some ''SO-17'',
       status = ''in_transit'', created_at = ''2024-05-02 08:30:00'',
       updated_at = ''2024-05-03 09:00:00'' \<rparr>"

definition moving :: StatusUpdate where
  "moving = \<lparr> upd_tracking_number = ''9400111105501612009154'', upd_status = ''in_transit'' \<rparr>"

definition stranger :: StatusUpdate where
  "stranger = \<lparr> upd_tracking_number = ''0000'', upd_status = ''lost'' \<rparr>"

definition arrived :: StatusUpdate where
  "arrived = \<lparr> upd_tracking_number = ''9400111105501612009154'', upd_status = ''delivered'' \<rparr>"

theorem status_updates_last_entry_wins_witness:
  "handleStatusUpdates (Inr [moving, stranger, arrived])
      (env_of (sqlite no_pattern_error no_datetime ''2024-06-01 00:00:00'')) [first_row, second_row] =
     (\<lparr> http_status = 200, headers = json_headers, payload = SuccessPayload \<rparr>,
      [first_row\<lparr> status := ''delivered'', updated_at := ''2024-06-01 00:00:00'' \<rparr>, second_row])
   \<and> last_update [moving, stranger, arrived] (upd_tracking_number arrived) = Some arrived
   \<and> handleStatusUpdates (Inr [stranger])
      (env_of (sqlite no_pattern_error no_datetime ''2024-06-01 00:00:00'')) [first_row, second_row] =
     (\<lparr> http_status = 200, headers = json_headers, payload = SuccessPayload \<rparr>,
      [first_row, second_row])
   \<and> handleStatusUpdates (Inr [])
      (env_of (sqlite no_pattern_error no_datetime ''2024-06-01 00:00:00'')) [first_row, second_row] =
     (\<lparr> http_status = 500, headers = [], payload = ErrorPayload ''Failed to update statuses'' \<rparr>,
      [first_row, second_row])"
proof -
  note batch = status_updates_last_entry_wins
    [where updates = "[moving, stranger, arrived]" and pattern_error = no_pattern_error
       and datetime = no_datetime
       and now = "''2024-06-01 00:00:00''" and rows = "[first_row, second_row]"
       and r = first_row and u = arrived and before = "[moving, stranger]" and after = "[]"]
  note lone = status_updates_last_entry_wins
    [where updates = "[stranger]" and pattern_error = no_pattern_error and datetime = no_datetime
       and now = "''2024-06-01 00:00:00''" and rows = "[first_row, second_row]"
       and r = first_row and u = stranger and before = "[]" and after = "[]"]
  note none = status_updates_last_entry_wins
    [where updates = "[]" and pattern_error = no_pattern_error and datetime = no_datetime
       and now = "''2024-06-01 00:00:00''" and rows = "[first_row, second_row]"
       and r = first_row and u = stranger and before = "[]" and after = "[]"]
  have after_batch: "map (reconciled ''2024-06-01 00:00:00'' [moving, stranger, arrived])
        [first_row, second_row] =
      [first_row\<lparr> status := ''delivered'', updated_at := ''2024-06-01 00:00:00'' \<rparr>, second_row]"
    by (simp add: reconciled_def last_update_def first_row_def second_row_def moving_def
        stranger_def arrived_def)
  have nonempty: "([moving, stranger, arrived] = []) = False"
    by simp
  have a: "handleStatusUpdates (Inr [moving, stranger, arrived])
      (env_of (sqlite no_pattern_error no_datetime ''2024-06-01 00:00:00'')) [first_row, second_row] =
     (\<lparr> http_status = 200, headers = json_headers, payload = SuccessPayload \<rparr>,
      [first_row\<lparr> status := ''delivered'', updated_at := ''2024-06-01 00:00:00'' \<rparr>, second_row])"
    by (simp only: batch [THEN conjunct1] after_batch nonempty if_False)
  have is_last: "[moving, stranger, arrived] = [moving, stranger] @ arrived # []
      \<and> (\<forall>v \<in> set []. upd_tracking_number v \<noteq> upd_tracking_number arrived)"
    by simp
  note b = batch [THEN conjunct2, THEN conjunct2, THEN conjunct2, THEN conjunct2,
      THEN conjunct2, THEN conjunct2, THEN conjunct1, THEN mp, OF is_last]
  have not_stored: "[stranger] \<noteq> []
      \<and> (\<forall>u \<in> set [stranger]. upd_tracking_number u \<notin> tracking_number ` set [first_row, second_row])"
    by (simp add: stranger_def first_row_def second_row_def)
  note c = lone [THEN conjunct2, THEN conjunct2, THEN conjunct2, THEN conjunct2,
      THEN conjunct2, THEN conjunct2, THEN conjunct2, THEN mp, OF not_stored]
  have unchanged: "map (reconciled ''2024-06-01 00:00:00'' []) [first_row, second_row]
      = [first_row, second_row]"
    by (simp add: reconciled_def last_update_def)
  have d: "handleStatusUpdates (Inr [])
      (env_of (sqlite no_pattern_error no_datetime ''2024-06-01 00:00:00'')) [first_row, second_row] =
     (\<lparr> http_status = 500, headers = [], payload = ErrorPayload ''Failed to update statuses'' \<rparr>,
      [first_row, second_row])"
    by (simp only: none [THEN conjunct1] unchanged if_True simp_thms)
  show ?thesis
    by (rule conjI [OF a conjI [OF b conjI [OF c d]]])
qed


section \<open>Ingestion against the store: insert or ignore\<close>

text \<open>The row an insert statement creates at time \<open>now\<close>.\<close>

definition new_row :: "string \<Rightarrow> ShipmentData \<Rightarrow> TrackingNumber" where
  "new_row now shipment =
     \<lparr> tracking_number = trackingNumber shipment, order_number = Some (orderNumber shipment),
       status = ''pending'', created_at = now, updated_at = now \<rparr>"

text \<open>
  The rows a list of shipments adds to a table in which the tracking numbers \<open>seen\<close>
  are taken: one for each first occurrence of a tracking number that is not taken.
\<close>

fun new_rows :: "string \<Rightarrow> ShipmentData list \<Rightarrow> string list \<Rightarrow> TrackingNumber list" where
  "new_rows now [] seen = []"
| "new_rows now (shipment # rest) seen =
     (if trackingNumber shipment \<in> set seen then new_rows now rest seen
      else new_row now shipment # new_rows now rest (seen @ [trackingNumber shipment]))"

text \<open>What the store reads in the text of the insert statement.\<close>

lemma parse_insert_sql:
  "parse_change insert_sql =
     Some (InsertRow [''tracking_number'', ''order_number'', ''status'', ''created_at'']
             [Param, Param, Lit ''pending'', Now] (Some ''tracking_number''))"
  by code_simp

lemma sqlite_exec_insert:
  "sqlite_exec now (insert_statement shipment) rows =
     Inr (if trackingNumber shipment \<in> tracking_number ` set rows then rows
          else rows @ [new_row now shipment])"
  by (simp add: sqlite_exec_def insert_statement_def parse_insert_sql new_row_def
      column_list_def set_column_def)

lemma run_inserts:
  "run_statements now (map insert_statement fetched) rows =
     Inr (rows @ new_rows now fetched (map tracking_number rows))"
proof (induction fetched arbitrary: rows)
  case Nil
  show ?case by simp
next
  case (Cons shipment rest)
  show ?case
    by (simp add: sqlite_exec_insert Cons.IH new_row_def)
qed

lemma store_inserts:
  "storeNewTrackingNumbers fetched (sqlite pattern_error datetime now) rows =
     Inr (rows @ new_rows now fetched (map tracking_number rows))"
proof (cases "fetched = []")
  case True
  then show ?thesis by (simp add: storeNewTrackingNumbers_def)
next
  case False
  then have "sqlite_batch now (map insert_statement fetched) rows =
      Inr (rows @ new_rows now fetched (map tracking_number rows))"
    by (simp add: sqlite_batch_def run_inserts)
  moreover have "d1_batch (sqlite pattern_error datetime now) = sqlite_batch now"
    by (simp add: sqlite_def)
  ultimately show ?thesis
    using False by (simp only: storeNewTrackingNumbers_def length_0_conv if_False)
qed

lemma new_rows_all_seen:
  "trackingNumber ` set fetched \<subseteq> set seen \<Longrightarrow> new_rows now fetched seen = []"
  by (induction fetched) auto

lemma new_rows_numbers:
  "set seen \<union> tracking_number ` set (new_rows now fetched seen)
     = set seen \<union> trackingNumber ` set fetched"
proof (induction fetched arbitrary: seen)
  case Nil
  show ?case by simp
next
  case (Cons shipment rest)
  show ?case
  proof (cases "trackingNumber shipment \<in> set seen")
    case True
    with Cons.IH [of seen] show ?thesis by auto
  next
    case False
    with Cons.IH [of "seen @ [trackingNumber shipment]"] show ?thesis
      by (auto simp: new_row_def)
  qed
qed

lemma new_rows_distinct:
  "distinct seen \<Longrightarrow> distinct (seen @ map tracking_number (new_rows now fetched seen))"
proof (induction fetched arbitrary: seen)
  case Nil
  then show ?case by simp
next
  case (Cons shipment rest)
  show ?case
  proof (cases "trackingNumber shipment \<in> set seen")
    case True
    with Cons show ?thesis by simp
  next
    case False
    with Cons.prems have "distinct (seen @ [trackingNumber shipment])" by simp
    from Cons.IH [OF this] False show ?thesis by (simp add: new_row_def)
  qed
qed

lemma new_rows_pending:
  "r \<in> set (new_rows now fetched seen) \<Longrightarrow>
     status r = ''pending'' \<and> created_at r = now \<and> tracking_number r \<notin> set seen"
proof (induction fetched arbitrary: seen)
  case Nil
  then show ?case by simp
next
  case (Cons shipment rest)
  show ?case
  proof (cases "trackingNumber shipment \<in> set seen")
    case True
    with Cons show ?thesis by simp
  next
    case False
    with Cons.prems
    have "r = new_row now shipment
        \<or> r \<in> set (new_rows now rest (seen @ [trackingNumber shipment]))"
      by simp
    then show ?thesis
    proof
      assume "r = new_row now shipment"
      with False show ?thesis by (simp add: new_row_def)
    next
      assume "r \<in> set (new_rows now rest (seen @ [trackingNumber shipment]))"
      from Cons.IH [OF this] show ?thesis by simp
    qed
  qed
qed

text \<open>
  C6. On the store, storeNewTrackingNumbers keeps every stored row as it is and in
  place, and appends one pending row for each tracking number that was not stored.
  Running it again with the same list, at any later time, changes nothing; tracking
  numbers that were distinct stay distinct; a list whose tracking numbers are all
  stored changes nothing; and for the empty list no batch reaches the store, whatever
  the store.
\<close>

theorem store_new_tracking_numbers_idempotent:
  "storeNewTrackingNumbers fetched (sqlite pattern_error datetime now) rows =
     Inr (rows @ new_rows now fetched (map tracking_number rows))
   \<and> storeNewTrackingNumbers fetched (sqlite pattern_error' datetime' later)
        (rows @ new_rows now fetched (map tracking_number rows)) =
     Inr (rows @ new_rows now fetched (map tracking_number rows))
   \<and> (distinct (map tracking_number rows) \<longrightarrow>
        distinct (map tracking_number (rows @ new_rows now fetched (map tracking_number rows))))
   \<and> tracking_number ` set (rows @ new_rows now fetched (map tracking_number rows))
       = tracking_number ` set rows \<union> trackingNumber ` set fetched
   \<and> (\<forall>r \<in> set (new_rows now fetched (map tracking_number rows)).
        status r = ''pending'' \<and> created_at r = now \<and> tracking_number r \<notin> tracking_number ` set rows)
   \<and> (trackingNumber ` set fetched \<subseteq> tracking_number ` set rows \<longrightarrow>
        storeNewTrackingNumbers fetched (sqlite pattern_error datetime now) rows = Inr rows)
   \<and> storeNewTrackingNumbers [] db s = Inr s
   \<and> storeNewTrackingNumbers [] recording_store [] = Inr []"
proof -
  let ?new = "new_rows now fetched (map tracking_number rows)"
  have once: "storeNewTrackingNumbers fetched (sqlite pattern_error datetime now) rows = Inr (rows @ ?new)"
    by (rule store_inserts)
  have numbers: "tracking_number ` set (rows @ ?new)
       = tracking_number ` set rows \<union> trackingNumber ` set fetched"
    using new_rows_numbers [of "map tracking_number rows" now fetched]
    by (simp add: image_Un)
  then have "trackingNumber ` set fetched \<subseteq> set (map tracking_number (rows @ ?new))"
    by auto
  then have "new_rows later fetched (map tracking_number (rows @ ?new)) = []"
    by (rule new_rows_all_seen)
  then have twice: "storeNewTrackingNumbers fetched (sqlite pattern_error' datetime' later) (rows @ ?new)
      = Inr (rows @ ?new)"
    by (simp add: store_inserts)
  have unique: "distinct (map tracking_number rows) \<longrightarrow> distinct (map tracking_number (rows @ ?new))"
    using new_rows_distinct [of "map tracking_number rows" now fetched] by simp
  have fresh: "\<forall>r \<in> set ?new.
        status r = ''pending'' \<and> created_at r = now \<and> tracking_number r \<notin> tracking_number ` set rows"
    using new_rows_pending [of _ now fetched "map tracking_number rows"] by simp
  have stored: "trackingNumber ` set fetched \<subseteq> tracking_number ` set rows \<longrightarrow>
        storeNewTrackingNumbers fetched (sqlite pattern_error datetime now) rows = Inr rows"
    using new_rows_all_seen [of fetched "map tracking_number rows" now]
    by (simp add: store_inserts)
  have empty: "storeNewTrackingNumbers [] db s = Inr s"
    by (simp add: storeNewTrackingNumbers_def)
  have silent: "storeNewTrackingNumbers [] recording_store [] = Inr []"
    by (simp add: storeNewTrackingNumbers_def)
  show ?thesis
    by (rule conjI [OF once conjI [OF twice conjI [OF unique conjI [OF numbers
          conjI [OF fresh conjI [OF stored conjI [OF empty silent]]]]]]])
qed

text \<open>
  A table holding one delivered row; a fetch that returns its tracking number again and,
  twice, a new one.
\<close>

definition delivered_row :: TrackingNumber where
  "delivered_row =
     \<lparr> tracking_number = ''9400111105501612819753'', order_number = None,
       status = ''delivered'', created_at = ''2024-05-01 10:00:00'',
       updated_at = ''2024-05-04 16:20:00'' \<rparr>"

definition known_shipment :: ShipmentData where
  "known_shipment = \<lparr> trackingNumber = ''9400111105501612819753'', orderNumber = ''SO-1'' \<rparr>"

definition fresh_shipment :: ShipmentData where
  "fresh_shipment = \<lparr> trackingNumber = ''9400111105501612849477'', orderNumber = ''SO-2'' \<rparr>"

definition repeated_shipment :: ShipmentData where
  "repeated_shipment = \<lparr> trackingNumber = ''9400111105501612849477'', orderNumber = ''SO-3'' \<rparr>"

definition after_first_run :: "TrackingNumber list" where
  "after_first_run =
     [delivered_row,
      \<lparr> tracking_number = ''9400111105501612849477'', order_number = Some ''SO-2'',
        status = ''pending'', created_at = ''2024-06-01 00:00:00'',
        updated_at = ''2024-06-01 00:00:00'' \<rparr>]"

theorem store_new_tracking_numbers_idempotent_witness:
  "storeNewTrackingNumbers [known_shipment, fresh_shipment, repeated_shipment]
      (sqlite no_pattern_error no_datetime ''2024-06-01 00:00:00'') [delivered_row] = Inr after_first_run
   \<and> storeNewTrackingNumbers [known_shipment, fresh_shipment, repeated_shipment]
      (sqlite no_pattern_error no_datetime ''2024-06-02 00:00:00'') after_first_run = Inr after_first_run
   \<and> distinct (map tracking_number [delivered_row])
   \<and> distinct (map tracking_number after_first_run)
   \<and> storeNewTrackingNumbers [known_shipment]
      (sqlite no_pattern_error no_datetime ''2024-06-01 00:00:00'') [delivered_row] = Inr [delivered_row]"
proof -
  note run = store_new_tracking_numbers_idempotent
    [where fetched = "[known_shipment, fresh_shipment, repeated_shipment]"
       and datetime = no_datetime and datetime' = no_datetime
       and now = "''2024-06-01 00:00:00''" and later = "''2024-06-02 00:00:00''"
       and rows = "[delivered_row]"]
  note again = store_new_tracking_numbers_idempotent
    [where fetched = "[known_shipment]" and datetime = no_datetime
       and now = "''2024-06-01 00:00:00''" and rows = "[delivered_row]"]
  have result: "[delivered_row] @ new_rows ''2024-06-01 00:00:00''
        [known_shipment, fresh_shipment, repeated_shipment] (map tracking_number [delivered_row])
      = after_first_run"
    by (simp add: after_first_run_def new_row_def delivered_row_def known_shipment_def
        fresh_shipment_def repeated_shipment_def)
  have a: "storeNewTrackingNumbers [known_shipment, fresh_shipment, repeated_shipment]
      (sqlite no_pattern_error no_datetime ''2024-06-01 00:00:00'') [delivered_row] = Inr after_first_run"
    using run [THEN conjunct1] by (simp only: result)
  have b: "storeNewTrackingNumbers [known_shipment, fresh_shipment, repeated_shipment]
      (sqlite no_pattern_error no_datetime ''2024-06-02 00:00:00'') after_first_run = Inr after_first_run"
    using run [THEN conjunct2, THEN conjunct1] by (simp only: result)
  have c: "distinct (map tracking_number [delivered_row])"
    by simp
  have d: "distinct (map tracking_number after_first_run)"
    using run [THEN conjunct2, THEN conjunct2, THEN conjunct1, THEN mp, OF c]
    by (simp only: result)
  have stored: "trackingNumber ` set [known_shipment] \<subseteq> tracking_number ` set [delivered_row]"
    by (simp add: known_shipment_def delivered_row_def)
  note e = again [THEN conjunct2, THEN conjunct2, THEN conjunct2, THEN conjunct2,
      THEN conjunct2, THEN conjunct1, THEN mp, OF stored]
  show ?thesis
    by (rule conjI [OF a conjI [OF b conjI [OF c conjI [OF d e]]]])
qed

section \<open>Paginated fetch: what each page request is and what it yields\<close>

text \<open>
  The credential, the URL of the first request and the URLs of the later ones, as
  fetchNewShipments forms them; the request for page \<open>j\<close> and the response to it.
\<close>

definition api_key :: "'s Env \<Rightarrow> string" where
  "api_key env = SHIPSTATION_API_KEY env @ '':'' @ SHIPSTATION_API_SECRET env"

definition base_url :: "('a, 'n) Runtime \<Rightarrow> 'n \<Rightarrow> string" where
  "base_url rt daysBack =
     ''https://ssapi.shipstation.com/shipments?shipDateStart='' @ rt_dateStr rt daysBack"

definition page_url :: "string \<Rightarrow> int \<Rightarrow> string" where
  "page_url baseUrl j = (if j = 1 then baseUrl else baseUrl @ ''&page='' @ number_text j)"

definition page_call :: "('a, 'n) Runtime \<Rightarrow> 'n \<Rightarrow> 's Env \<Rightarrow> int \<Rightarrow> Call" where
  "page_call rt daysBack env j =
     Fetch (page_url (base_url rt daysBack) j) (request_headers (rt_btoa rt (api_key env)))"

definition page_response :: "('a, 'n) Runtime \<Rightarrow> 'n \<Rightarrow> 's Env \<Rightarrow> int \<Rightarrow> 'a HttpResponse" where
  "page_response rt daysBack env j =
     rt_fetch rt (page_url (base_url rt daysBack) j) (request_headers (rt_btoa rt (api_key env)))"

text \<open>
  A response is good when its transport status is a success, its body parses, and the
  body has the shipments field. The error of a response that is not good: for a
  transport failure the message with the status code and the body text, for a body that
  does not parse the parser's error, and else the message about the missing field.
\<close>

definition page_ok :: "'a HttpResponse \<Rightarrow> bool" where
  "page_ok r =
     (resp_ok r \<and> (case resp_json r of Inl e \<Rightarrow> False | Inr data \<Rightarrow> shipments data \<noteq> None))"

definition page_error :: "'a HttpResponse \<Rightarrow> JsError" where
  "page_error r =
     (if \<not> resp_ok r
      then Error (''ShipStation API error: '' @ decimal (resp_status r) @ '' - '' @ resp_text r)
      else (case resp_json r of
              Inl e \<Rightarrow> e
            | Inr data \<Rightarrow> Error ''Invalid response format: missing shipments array''))"

definition page_shipments :: "'a HttpResponse \<Rightarrow> 'a ShipmentData_scheme list" where
  "page_shipments r =
     (case resp_json r of
        Inl e \<Rightarrow> []
      | Inr data \<Rightarrow> (case shipments data of None \<Rightarrow> [] | Some xs \<Rightarrow> xs))"

definition page_count :: "'a HttpResponse \<Rightarrow> int" where
  "page_count r = (case resp_json r of Inl e \<Rightarrow> 1 | Inr data \<Rightarrow> pages data)"

lemma fetch_page_bad:
  "\<not> page_ok (rt_fetch rt url (request_headers cred)) \<Longrightarrow>
   fetchShipStationPage rt url cred =
     (Inl (page_error (rt_fetch rt url (request_headers cred))),
      [Fetch url (request_headers cred)])"
  by (auto simp: fetchShipStationPage_def page_ok_def page_error_def Let_def split: sum.splits)

lemma fetch_page_good:
  "page_ok (rt_fetch rt url (request_headers cred)) \<Longrightarrow>
   \<exists>data. fetchShipStationPage rt url cred = (Inr data, [Fetch url (request_headers cred)])
      \<and> shipments data = Some (page_shipments (rt_fetch rt url (request_headers cred)))
      \<and> pages data = page_count (rt_fetch rt url (request_headers cred))"
  by (auto simp: fetchShipStationPage_def page_ok_def page_shipments_def page_count_def Let_def
      split: sum.splits)


text \<open>The loop when some page up to \<open>k\<close> is not good: it ends at the first such page.\<close>

lemma fetch_pages_bad:
  assumes "page \<le> k" and "k \<le> n"
    and "\<not> page_ok (rt_fetch rt (baseUrl @ ''&page='' @ number_text k) (request_headers cred))"
  shows "\<exists>j. page \<le> j \<and> j \<le> k
     \<and> \<not> page_ok (rt_fetch rt (baseUrl @ ''&page='' @ number_text j) (request_headers cred))
     \<and> (\<forall>i. page \<le> i \<and> i < j \<longrightarrow>
           page_ok (rt_fetch rt (baseUrl @ ''&page='' @ number_text i) (request_headers cred)))
     \<and> fetch_pages rt baseUrl cred n page acc calls =
         (Inl (page_error (rt_fetch rt (baseUrl @ ''&page='' @ number_text j) (request_headers cred))),
          calls @ map (\<lambda>j. Fetch (baseUrl @ ''&page='' @ number_text j) (request_headers cred))
                 [page..j])"
  using assms
proof (induction "nat (k - page)" arbitrary: page acc calls)
  case 0
  then have "page = k" by simp
  with 0 have le: "page \<le> n"
    and bad: "\<not> page_ok (rt_fetch rt (baseUrl @ ''&page='' @ number_text page) (request_headers cred))"
    by simp_all
  have "fetch_pages rt baseUrl cred n page acc calls =
      (Inl (page_error (rt_fetch rt (baseUrl @ ''&page='' @ number_text page) (request_headers cred))),
       calls @ [Fetch (baseUrl @ ''&page='' @ number_text page) (request_headers cred)])"
    by (subst fetch_pages.simps) (use le fetch_page_bad [OF bad] in simp)
  with bad \<open>page = k\<close> show ?case by (intro exI [of _ page]) auto
next
  case (Suc m)
  then have lt: "page < k" and le: "page \<le> n" and m: "m = nat (k - (page + 1))" by simp_all
  let ?url = "baseUrl @ ''&page='' @ number_text page"
  show ?case
  proof (cases "page_ok (rt_fetch rt ?url (request_headers cred))")
    case False
    have "fetch_pages rt baseUrl cred n page acc calls =
        (Inl (page_error (rt_fetch rt ?url (request_headers cred))),
         calls @ [Fetch ?url (request_headers cred)])"
      by (subst fetch_pages.simps) (use le fetch_page_bad [OF False] in simp)
    with False lt show ?thesis by (intro exI [of _ page]) auto
  next
    case True
    from fetch_page_good [OF True] obtain data where
      data: "fetchShipStationPage rt ?url cred = (Inr data, [Fetch ?url (request_headers cred)])"
        "shipments data = Some (page_shipments (rt_fetch rt ?url (request_headers cred)))"
      by blast
    have step: "fetch_pages rt baseUrl cred n page acc calls =
        fetch_pages rt baseUrl cred n (page + 1)
          (acc @ page_shipments (rt_fetch rt ?url (request_headers cred)))
          (calls @ [Fetch ?url (request_headers cred)])"
      by (subst fetch_pages.simps) (use le data in \<open>simp add: spread_def\<close>)
    from lt have "page + 1 \<le> k" by simp
    from Suc.hyps(1) [OF m this Suc.prems(2) Suc.prems(3)]
    obtain j where j: "page + 1 \<le> j" "j \<le> k"
      "\<not> page_ok (rt_fetch rt (baseUrl @ ''&page='' @ number_text j) (request_headers cred))"
      "\<forall>i. page + 1 \<le> i \<and> i < j \<longrightarrow>
           page_ok (rt_fetch rt (baseUrl @ ''&page='' @ number_text i) (request_headers cred))"
      "fetch_pages rt baseUrl cred n (page + 1)
          (acc @ page_shipments (rt_fetch rt ?url (request_headers cred)))
          (calls @ [Fetch ?url (request_headers cred)]) =
         (Inl (page_error (rt_fetch rt (baseUrl @ ''&page='' @ number_text j) (request_headers cred))),
          (calls @ [Fetch ?url (request_headers cred)])
            @ map (\<lambda>j. Fetch (baseUrl @ ''&page='' @ number_text j) (request_headers cred))
                 [page + 1..j])"
      by blast
    from j(1) have "page \<le> j" by simp
    have before: "\<forall>i. page \<le> i \<and> i < j \<longrightarrow>
           page_ok (rt_fetch rt (baseUrl @ ''&page='' @ number_text i) (request_headers cred))"
    proof (intro allI impI)
      fix i assume i: "page \<le> i \<and> i < j"
      show "page_ok (rt_fetch rt (baseUrl @ ''&page='' @ number_text i) (request_headers cred))"
      proof (cases "i = page")
        case True
        with \<open>page_ok (rt_fetch rt ?url (request_headers cred))\<close> show ?thesis by simp
      next
        case False
        with i have "page + 1 \<le> i \<and> i < j" by simp
        with j(4) show ?thesis by blast
      qed
    qed
    from \<open>page \<le> j\<close> j(2,3) before step j(5) show ?thesis
      by (intro exI [of _ j]) (simp add: upto_rec1 [of page j])
  qed
qed

lemma later_pages:
  "map (\<lambda>j. f (baseUrl @ ''&page='' @ number_text j)) [2..n] = map (\<lambda>j. f (page_url baseUrl j)) [2..n]"
  by (rule map_cong) (auto simp: page_url_def)


section \<open>Paginated fetch: every page good\<close>


section \<open>Paginated fetch: a page that is not good\<close>

text \<open>
  C4. When the response to some page \<open>k\<close>, from 1 to the count declared by the first
  page, is not good (a transport status that is not a success, a body without the
  shipments field, or a body that does not parse), fetchNewShipments returns an error
  and no list. The error is that of the first page \<open>j \<le> k\<close> that is not good: for a
  transport failure its message holds the status code and the body text. The requests
  made are those for pages 1 to \<open>j\<close>, in order, and none for a later page.
\<close>

theorem fetch_aborts_at_first_bad_page:
  assumes "1 \<le> k" and "k \<le> max 1 (page_count (page_response rt daysBack env 1))"
    and "\<not> page_ok (page_response rt daysBack env k)"
  shows "\<exists>j. 1 \<le> j \<and> j \<le> k
     \<and> \<not> page_ok (page_response rt daysBack env j)
     \<and> (\<forall>i. 1 \<le> i \<and> i < j \<longrightarrow> page_ok (page_response rt daysBack env i))
     \<and> fetchNewShipments rt daysBack env =
         (Inl (page_error (page_response rt daysBack env j)),
          Btoa (api_key env)
            # map (\<lambda>j. Fetch (page_url (base_url rt daysBack) j)
                           (request_headers (rt_btoa rt (api_key env))))
                [1..j])
     \<and> (\<not> resp_ok (page_response rt daysBack env j) \<longrightarrow>
          page_error (page_response rt daysBack env j) =
            Error (''ShipStation API error: ''
                   @ decimal (resp_status (page_response rt daysBack env j))
                   @ '' - '' @ resp_text (page_response rt daysBack env j)))"
proof -
  let ?base = "base_url rt daysBack"
  let ?cred = "rt_btoa rt (api_key env)"
  let ?first = "rt_fetch rt ?base (request_headers ?cred)"
  let ?n = "page_count ?first"
  have first: "page_response rt daysBack env 1 = ?first"
    by (simp add: page_response_def page_url_def)
  have msg: "\<not> resp_ok r \<longrightarrow>
      page_error r = Error (''ShipStation API error: '' @ decimal (resp_status r)
                            @ '' - '' @ resp_text r)" for r :: "'a HttpResponse"
    by (simp add: page_error_def)
  show ?thesis
  proof (cases "page_ok ?first")
    case False
    have "fetchNewShipments rt daysBack env =
        (Inl (page_error ?first), [Btoa (api_key env), Fetch ?base (request_headers ?cred)])"
      unfolding fetchNewShipments_def Let_def api_key_def [symmetric] base_url_def [symmetric]
      by (simp add: fetch_page_bad [OF False])
    with False assms(1) msg [of ?first] show ?thesis
      by (intro exI [of _ 1]) (auto simp: first page_url_def)
  next
    case True
    from fetch_page_good [OF True] obtain data where
      data: "fetchShipStationPage rt ?base ?cred = (Inr data, [Fetch ?base (request_headers ?cred)])"
        "shipments data = Some (page_shipments ?first)" "pages data = ?n"
      by blast
    from True assms(3) have "k \<noteq> 1"
      by (auto simp: first)
    with assms(1,2) have k: "2 \<le> k" "k \<le> ?n" "?n > 1"
      by (simp_all add: first max_def split: if_splits)
    from assms(3) k(1)
    have bad: "\<not> page_ok (rt_fetch rt (?base @ ''&page='' @ number_text k) (request_headers ?cred))"
      by (simp add: page_response_def page_url_def)
    from fetch_pages_bad [OF k(1) k(2) bad, of "page_shipments ?first"
        "[Btoa (api_key env), Fetch ?base (request_headers ?cred)]"]
    obtain j where j: "2 \<le> j" "j \<le> k"
      "\<not> page_ok (rt_fetch rt (?base @ ''&page='' @ number_text j) (request_headers ?cred))"
      "\<forall>i. 2 \<le> i \<and> i < j \<longrightarrow>
         page_ok (rt_fetch rt (?base @ ''&page='' @ number_text i) (request_headers ?cred))"
      "fetch_pages rt ?base ?cred ?n 2 (page_shipments ?first)
          [Btoa (api_key env), Fetch ?base (request_headers ?cred)] =
        (Inl (page_error (rt_fetch rt (?base @ ''&page='' @ number_text j) (request_headers ?cred))),
         [Btoa (api_key env), Fetch ?base (request_headers ?cred)]
           @ map (\<lambda>j. Fetch (?base @ ''&page='' @ number_text j) (request_headers ?cred)) [2..j])"
      by blast
    have resp_j: "page_response rt daysBack env j
        = rt_fetch rt (?base @ ''&page='' @ number_text j) (request_headers ?cred)"
      using j(1) by (simp add: page_response_def page_url_def)
    have run: "fetchNewShipments rt daysBack env =
        (Inl (page_error (page_response rt daysBack env j)),
         [Btoa (api_key env), Fetch ?base (request_headers ?cred)]
           @ map (\<lambda>j. Fetch (page_url ?base j) (request_headers ?cred)) [2..j])"
      unfolding fetchNewShipments_def Let_def api_key_def [symmetric] base_url_def [symmetric]
        resp_j later_pages [of "\<lambda>u. Fetch u (request_headers ?cred)", symmetric]
      using k(3) by (simp add: data spread_def j(5))
    have calls: "Btoa (api_key env)
            # map (\<lambda>j. Fetch (page_url ?base j) (request_headers ?cred)) [1..j]
        = [Btoa (api_key env), Fetch ?base (request_headers ?cred)]
           @ map (\<lambda>j. Fetch (page_url ?base j) (request_headers ?cred)) [2..j]"
      using j(1) by (simp add: upto_rec1 [of 1 j] page_url_def)
    have before: "\<forall>i. 1 \<le> i \<and> i < j \<longrightarrow> page_ok (page_response rt daysBack env i)"
    proof (intro allI impI)
      fix i assume i: "1 \<le> i \<and> i < j"
      show "page_ok (page_response rt daysBack env i)"
      proof (cases "i = 1")
        case True
        with \<open>page_ok ?first\<close> show ?thesis by (simp add: first)
      next
        case False
        with i have "2 \<le> i \<and> i < j" by simp
        with j(4) show ?thesis by (simp add: page_response_def page_url_def)
      qed
    qed
    from j(1) have "1 \<le> j" by simp
    moreover note j(2)
    moreover from j(3) have "\<not> page_ok (page_response rt daysBack env j)"
      by (simp add: resp_j)
    moreover note before
    moreover from run calls have "fetchNewShipments rt daysBack env =
         (Inl (page_error (page_response rt daysBack env j)),
          Btoa (api_key env)
            # map (\<lambda>j. Fetch (page_url ?base j) (request_headers ?cred)) [1..j])"
      by simp
    moreover note msg [of "page_response rt daysBack env j"]
    ultimately show ?thesis by blast
  qed
qed
section \<open>Paginated fetch: two runs of three pages\<close>

text \<open>
  A shipment as the API sends it has more fields than the two the worker keeps.
\<close>

record ApiShipment = ShipmentData +
  carrierCode :: string

definition api_shipment :: "string \<Rightarrow> string \<Rightarrow> ApiShipment" where
  "api_shipment tn ord = \<lparr> trackingNumber = tn, orderNumber = ord, carrierCode = ''usps'' \<rparr>"

definition good_page :: "ApiShipment list \<Rightarrow> int \<Rightarrow> int \<Rightarrow> unit ApiShipment_ext HttpResponse" where
  "good_page xs j n =
     \<lparr> resp_ok = True, resp_status = 200, resp_text = ''{}'',
       resp_json = Inr \<lparr> shipments = Some xs, ss_total = 4, ss_page = j, pages = n \<rparr> \<rparr>"

definition server_error :: "unit ApiShipment_ext HttpResponse" where
  "server_error =
     \<lparr> resp_ok = False, resp_status = 500, resp_text = ''Server Error'',
       resp_json = Inl (Error ''Unexpected token S in JSON at position 0'') \<rparr>"

text \<open>
  A remote with three pages for the start date \<open>2024-05-31\<close>; \<open>second\<close> is its response
  to the request for page 2.
\<close>

definition remote :: "unit ApiShipment_ext HttpResponse \<Rightarrow> string \<Rightarrow> (string \<times> string) list
    \<Rightarrow> unit ApiShipment_ext HttpResponse" where
  "remote second url hdrs =
     (if url = ''https://ssapi.shipstation.com/shipments?shipDateStart=2024-05-31''
      then good_page [api_shipment ''9400-1'' ''SO-1'', api_shipment ''9400-2'' ''SO-2''] 1 3
      else if url = ''https://ssapi.shipstation.com/shipments?shipDateStart=2024-05-31&page=2''
      then second
      else if url = ''https://ssapi.shipstation.com/shipments?shipDateStart=2024-05-31&page=3''
      then good_page [api_shipment ''9400-4'' ''SO-4''] 3 3
      else server_error)"

definition runtime_with :: "unit ApiShipment_ext HttpResponse \<Rightarrow> (unit ApiShipment_ext, nat) Runtime" where
  "runtime_with second =
     \<lparr> rt_fetch = remote second, rt_btoa = (\<lambda>s. ''a2V5OnNlY3JldA==''),
       rt_dateStr = (\<lambda>daysBack. ''2024-05-31'') \<rparr>"


definition broken_runtime :: "(unit ApiShipment_ext, nat) Runtime" where
  "broken_runtime = runtime_with server_error"

definition sent_headers :: "(string \<times> string) list" where
  "sent_headers =
     [(''Authorization'', ''Basic a2V5OnNlY3JldA==''), (''Content-Type'', ''application/json'')]"

lemma number_text_2: "number_text 2 = ''2''"
  by (simp add: number_text_def decimal.simps digit_def)

lemma number_text_3: "number_text 3 = ''3''"
  by (simp add: number_text_def decimal.simps digit_def)

lemma decimal_500: "decimal 500 = ''500''"
  by (simp add: decimal.simps digit_def)

lemma page_urls:
  "page_url (base_url (runtime_with second) d) 1
     = ''https://ssapi.shipstation.com/shipments?shipDateStart=2024-05-31''"
  "page_url (base_url (runtime_with second) d) 2
     = ''https://ssapi.shipstation.com/shipments?shipDateStart=2024-05-31&page=2''"
  "page_url (base_url (runtime_with second) d) 3
     = ''https://ssapi.shipstation.com/shipments?shipDateStart=2024-05-31&page=3''"
  by (simp_all add: page_url_def base_url_def runtime_with_def number_text_2 number_text_3)

lemma page_responses:
  "page_response (runtime_with second) d env 1
     = good_page [api_shipment ''9400-1'' ''SO-1'', api_shipment ''9400-2'' ''SO-2''] 1 3"
  "page_response (runtime_with second) d env 2 = second"
  "page_response (runtime_with second) d env 3 = good_page [api_shipment ''9400-4'' ''SO-4''] 3 3"
  unfolding page_response_def page_urls
  by (simp_all add: runtime_with_def remote_def)

lemma good_page_facts:
  "page_ok (good_page xs j n)" "page_count (good_page xs j n) = n"
  "page_shipments (good_page xs j n) = xs"
  by (simp_all add: page_ok_def page_count_def page_shipments_def good_page_def)

lemma sent_headers_eq:
  "request_headers (rt_btoa (runtime_with second) key) = sent_headers"
  by (simp add: request_headers_def runtime_with_def sent_headers_def)

lemma api_key_eq: "api_key (env_of db) = ''key:secret''"
  by (simp add: api_key_def env_of_def)



theorem fetch_aborts_at_first_bad_page_witness:
  "\<not> page_ok (page_response broken_runtime (1 :: nat) (env_of recording_store) 2)
   \<and> page_count (page_response broken_runtime (1 :: nat) (env_of recording_store) 1) = 3
   \<and> fetchNewShipments broken_runtime (1 :: nat) (env_of recording_store) =
     (Inl (Error ''ShipStation API error: 500 - Server Error''),
      [Btoa ''key:secret'',
       Fetch ''https://ssapi.shipstation.com/shipments?shipDateStart=2024-05-31'' sent_headers,
       Fetch ''https://ssapi.shipstation.com/shipments?shipDateStart=2024-05-31&page=2'' sent_headers])"
proof -
  let ?resp = "page_response broken_runtime (1 :: nat) (env_of recording_store)"
  have n: "page_count (?resp 1) = 3"
    by (simp add: broken_runtime_def page_responses good_page_facts)
  have ok1: "page_ok (?resp 1)"
    by (simp add: broken_runtime_def page_responses good_page_facts)
  have bad2: "\<not> page_ok (?resp 2)"
    by (simp add: broken_runtime_def page_responses page_ok_def server_error_def)
  have in_range: "(2 :: int) \<le> max 1 (page_count (?resp 1))"
    unfolding n by simp
  from fetch_aborts_at_first_bad_page [OF _ in_range bad2]
  obtain j where j: "1 \<le> j" "j \<le> 2" "\<not> page_ok (?resp j)"
    "fetchNewShipments broken_runtime (1 :: nat) (env_of recording_store) =
       (Inl (page_error (?resp j)),
        Btoa (api_key (env_of recording_store))
          # map (\<lambda>j. Fetch (page_url (base_url broken_runtime (1 :: nat)) j)
                         (request_headers (rt_btoa broken_runtime (api_key (env_of recording_store)))))
              [1..j])"
    by auto
  from j(1,2,3) ok1 have "j = 2"
    by (cases "j = 1") auto
  have range: "[1..(2 :: int)] = [1, 2]"
    by (simp add: upto_rec1)
  have err: "page_error (?resp 2) = Error ''ShipStation API error: 500 - Server Error''"
    by (simp add: broken_runtime_def page_responses page_error_def server_error_def decimal_500)
  have run: "fetchNewShipments broken_runtime (1 :: nat) (env_of recording_store) =
     (Inl (Error ''ShipStation API error: 500 - Server Error''),
      [Btoa ''key:secret'',
       Fetch ''https://ssapi.shipstation.com/shipments?shipDateStart=2024-05-31'' sent_headers,
       Fetch ''https://ssapi.shipstation.com/shipments?shipDateStart=2024-05-31&page=2'' sent_headers])"
    unfolding j(4) \<open>j = 2\<close> range err
    unfolding broken_runtime_def
    by (simp add: page_urls sent_headers_eq api_key_eq)
  show ?thesis
    by (rule conjI [OF bad2 conjI [OF n run]])
qed

section \<open>Search against the store: how the store reads the query text\<close>
















section \<open>Search against the store: the rows a request matches\<close>



























subsection \<open>Substring filters and containment\<close>

text \<open>\<open>s.includes(x)\<close>: \<open>x\<close> occurs in \<open>s\<close> as a run of consecutive characters.\<close>

fun contains :: "string \<Rightarrow> string \<Rightarrow> bool" where
  "contains x [] = (x = [])"
| "contains x (c # cs) = (startsWith (c # cs) x \<or> contains x cs)"







text \<open>
  The converse fails: \<open>LIKE\<close> also accepts a field that matches the value read as a
  pattern (\<open>_\<close> and \<open>%\<close> in the value are wildcards) or that differs from it in the case
  of ASCII letters. So a filter that is not negated returns every row whose field
  contains the value, and possibly more.
\<close>

lemma like_wider_than_contains:
  "like_match ''%a_c%'' ''abc'' \<and> \<not> contains ''a_c'' ''abc''
   \<and> like_match ''%ABC%'' ''abc'' \<and> \<not> contains ''ABC'' ''abc''"
  by code_simp












subsection \<open>The rows a search returns\<close>


text \<open>
  Four stored rows, with the statuses pending, in transit, delivered and out for
  delivery, stored in an order that is not their order of creation; a request with one
  parameter, and a request with none.
\<close>

definition stored :: "string \<Rightarrow> string option \<Rightarrow> string \<Rightarrow> string \<Rightarrow> TrackingNumber" where
  "stored tn ord st created =
     \<lparr> tracking_number = tn, order_number = ord, status = st,
       created_at = created, updated_at = created \<rparr>"


definition request :: "string \<Rightarrow> string \<Rightarrow> string \<Rightarrow> string option" where
  "request key v name = (if name = key then Some v else None)"






section \<open>Search against the store: negated filters\<close>





end
